(* ===== verification/Prelude.thy ===== *)
theory Prelude
  imports Main "HOL-Library.Word" "HOL-Library.Signed_Division"
begin

text \<open>
  Shared vocabulary of the go-sail development: how Go values are represented, and the
  facts about them that the component theories use.

  \<^item> Go's \<^verbatim>\<open>int64\<close> (and \<^verbatim>\<open>time.Duration\<close>, which is an \<^verbatim>\<open>int64\<close>) is
    \<open>64 word\<close>: \<open>+\<close>, \<open>-\<close> and \<open>*\<close> wrap around as Go's do, \<open>sint\<close> reads the
    two's-complement value, \<open><s\<close> and \<open>\<le>s\<close> are Go's \<^verbatim>\<open><\<close> and \<^verbatim>\<open><=\<close>.
  \<^item> Go's integer division truncates towards zero; it is \<open>int64_div\<close>, built on
    \<open>sdiv\<close> of \<open>HOL-Library.Signed_Division\<close>.
  \<^item> A \<^verbatim>\<open>panic\<close> is a value: a function that may panic returns \<open>'a result\<close>, that
    is \<open>panic + 'a\<close> with \<open>Inl\<close> for the panic.

  The collection \<open>go_defs\<close> holds the definitions of Go built-ins and library
  constants; \<open>simp add: go_defs\<close> evaluates a closed term built from them.
\<close>

unbundle bit_operations_syntax

named_theorems go_defs

section \<open>Machine integers\<close>

type_synonym int64 = "64 word"

abbreviation MinInt64 :: int where
  "MinInt64 \<equiv> - 9223372036854775808"

abbreviation MaxInt64 :: int where
  "MaxInt64 \<equiv> 9223372036854775807"

definition in_int64 :: "int \<Rightarrow> bool" where
  "in_int64 k \<longleftrightarrow> MinInt64 \<le> k \<and> k \<le> MaxInt64"

definition int64_div :: "int64 \<Rightarrow> int64 \<Rightarrow> int64" where
  [go_defs]: "int64_div a b = word_of_int (sint a sdiv sint b)"

section \<open>Panics as values\<close>

datatype panic = Panic string

type_synonym 'a result = "panic + 'a"

definition is_panic :: "'a result \<Rightarrow> bool" where
  "is_panic r = (case r of Inl _ \<Rightarrow> True | Inr _ \<Rightarrow> False)"

section \<open>Facts about \<open>int64\<close>\<close>

lemma in_int64_sint [simp, intro]: "in_int64 (sint (w :: int64))"
  using sint_ge [of w] sint_lt [of w] by (simp add: in_int64_def)

lemma sint_int64: "in_int64 k \<Longrightarrow> sint (word_of_int k :: int64) = k"
  by (simp add: in_int64_def sint_sbintrunc' signed_take_bit_int_eq_self)

lemma sint_int64_numeral_bounds:
  "- 9223372036854775808 \<le> sint (w :: int64)" "sint (w :: int64) \<le> 9223372036854775807"
  using in_int64_sint [of w] by (simp_all add: in_int64_def)

lemma int64_eq_iff_sint: "a = b \<longleftrightarrow> sint a = sint b" for a b :: int64
  by (rule word_eq_iff_signed)

lemma sint_int64_add:
  "in_int64 (sint a + sint b) \<Longrightarrow> sint (a + b) = sint a + sint b" for a b :: int64
  using sint_int64 [of "sint a + sint b"] by simp

lemma sint_int64_diff:
  "in_int64 (sint a - sint b) \<Longrightarrow> sint (a - b) = sint a - sint b" for a b :: int64
  using sint_int64 [of "sint a - sint b"] by simp

lemma sint_int64_mult:
  "in_int64 (sint a * sint b) \<Longrightarrow> sint (a * b) = sint a * sint b" for a b :: int64
  using sint_int64 [of "sint a * sint b"] by simp

section \<open>Signed and unsigned readings, negation, wrap-around\<close>

lemma uint_nonneg_sint:
  fixes y :: int64
  assumes "0 \<le> sint y"
  shows "uint y = sint y"
proof -
  have "uint y = uint (word_of_int (sint y) :: int64)"
    by simp
  also have "\<dots> = sint y mod 2 ^ 64"
    by (simp only: uint_word_of_int) simp
  also have "\<dots> = sint y"
    using assms sint_int64_numeral_bounds [of y] by simp
  finally show ?thesis .
qed

lemma unat_nonneg_sint: "0 \<le> sint y \<Longrightarrow> unat y = nat (sint y)" for y :: int64
  using uint_nonneg_sint [of y] by (simp add: unat_eq_nat_uint)

lemma sint_neg_int64: "sint a \<noteq> MinInt64 \<Longrightarrow> sint (- a) = - sint a" for a :: int64
  using sint_int64_diff [of 0 a] sint_int64_numeral_bounds [of a]
  by (simp add: in_int64_def)

lemma unat_pred_sint:
  fixes y :: int64
  assumes "1 \<le> sint y"
  shows "unat (y - 1) = nat (sint y) - 1"
proof -
  from assms have "sint (y - 1) = sint y - 1"
    using sint_int64_diff [of y 1] sint_int64_numeral_bounds [of y] by (simp add: in_int64_def)
  with assms show ?thesis
    using unat_nonneg_sint [of "y - 1"] by simp
qed

lemma sint_int64_wrap_high:
  assumes "MaxInt64 < k" and "k < 18446744073709551616"
  shows "sint (word_of_int k :: int64) = k - 18446744073709551616"
proof -
  have "(k + 9223372036854775808) mod 18446744073709551616 =
        (k + 9223372036854775808 - 18446744073709551616) mod 18446744073709551616"
    using assms by (intro mod_pos_geq) simp_all
  also have "\<dots> = k + 9223372036854775808 - 18446744073709551616"
    using assms by (intro mod_pos_pos_trivial) simp_all
  finally show ?thesis
    by (simp add: int_word_sint)
qed

text \<open>Counting up to a bound: the distance left, as the measure of a loop.\<close>

lemma gap_one_iff: "y - t = 1 \<longleftrightarrow> t + 1 = y" for y t :: int64
  by (auto simp: diff_eq_eq add.commute)

lemma gap_step: "t + 1 \<noteq> y \<Longrightarrow> unat (y - t - 1) = Suc (unat (y - (t + 1) - 1))"
  for y t :: int64
proof -
  assume "t + 1 \<noteq> y"
  then have "y - t - 1 \<noteq> 0"
    by (simp add: gap_one_iff)
  then have "0 < unat (y - t - 1)"
    by (simp add: unat_gt_0)
  moreover have "unat (y - t - 1 - 1) = unat (y - t - 1) - 1"
    using \<open>y - t - 1 \<noteq> 0\<close> by (rule unat_minus_one)
  moreover have "y - (t + 1) - 1 = y - t - 1 - 1"
    by simp
  ultimately show ?thesis
    by simp
qed

section \<open>Truncating division\<close>

lemma sdiv_pos_divisor:
  "0 < c \<Longrightarrow> k sdiv c = (if 0 \<le> k then k div c else - ((- k) div c))" for k c :: int
  by (simp add: signed_divide_int_def sgn_if)

lemma sdiv_between:
  fixes k c :: int
  assumes "0 < c"
  shows "min 0 k \<le> k sdiv c \<and> k sdiv c \<le> max 0 k"
proof (cases "0 \<le> k")
  case True
  with assms have "0 \<le> k div c" and "k div c \<le> k"
    by (cases "k = 0"; simp add: pos_imp_zdiv_nonneg_iff int_div_le_self)+
  with True assms show ?thesis
    by (simp add: sdiv_pos_divisor)
next
  case False
  with assms have "0 \<le> (- k) div c" and "(- k) div c \<le> - k"
    by (simp_all add: pos_imp_zdiv_nonneg_iff int_div_le_self)
  with False assms show ?thesis
    by (simp add: sdiv_pos_divisor)
qed

lemma sdiv_less_one_iff:
  fixes k c :: int
  assumes "0 < c"
  shows "k sdiv c < 1 \<longleftrightarrow> k < c"
proof (cases "0 \<le> k")
  case True
  with assms have "0 < k div c \<longleftrightarrow> c \<le> k"
    by (simp add: pos_imp_zdiv_pos_iff)
  with True assms show ?thesis
    by (auto simp: sdiv_pos_divisor)
next
  case False
  with assms have "0 \<le> (- k) div c"
    by (simp add: pos_imp_zdiv_nonneg_iff)
  with False assms show ?thesis
    by (simp add: sdiv_pos_divisor)
qed

lemma sint_int64_div:
  assumes "0 < sint b"
  shows "sint (int64_div a b) = sint a sdiv sint b"
proof -
  have "min 0 (sint a) \<le> sint a sdiv sint b \<and> sint a sdiv sint b \<le> max 0 (sint a)"
    using assms by (rule sdiv_between)
  moreover have "in_int64 (sint a)" ..
  ultimately have "in_int64 (sint a sdiv sint b)"
    by (simp add: in_int64_def min_def max_def split: if_splits)
  then show ?thesis
    by (simp add: int64_div_def sint_int64)
qed

section \<open>Lists\<close>

lemma list_all_butlast_iff:
  "list_all P (butlast xs) \<longleftrightarrow> (\<forall>i. Suc i < length xs \<longrightarrow> P (xs ! i))"
  by (auto simp: list_all_length nth_butlast)

lemma filter_butlast_none:
  "list_all (\<lambda>x. \<not> P x) (butlast xs) \<Longrightarrow>
   filter P xs = (if xs \<noteq> [] \<and> P (last xs) then [last xs] else [])"
proof (induction xs rule: rev_induct)
  case Nil
  then show ?case by simp
next
  case (snoc x xs)
  then have "filter P xs = []"
    by (simp add: filter_empty_conv list_all_iff)
  then show ?case by simp
qed

lemma sum_list_map_update:
  fixes f :: "'a \<Rightarrow> nat"
  shows "i < length xs \<Longrightarrow> sum_list (map f (xs[i := y])) + f (xs ! i) = sum_list (map f xs) + f y"
  by (induction xs arbitrary: i) (auto simp: nth_Cons' split: nat.splits)

end
