(* ===== verification/Duration.thy ===== *)
theory Duration
  imports Prelude
begin

text \<open>
  Go's \<^verbatim>\<open>time.Duration\<close> as the scheduler uses it: a count of nanoseconds in an
  \<^verbatim>\<open>int64\<close>, the unit constants \<^verbatim>\<open>time.Millisecond\<close> to \<^verbatim>\<open>time.Hour\<close>, and the
  method \<^verbatim>\<open>Milliseconds()\<close>, which \<^verbatim>\<open>Every\<close> calls for its clamp. The package
  \<^verbatim>\<open>time\<close> is not part of the repository; the definitions follow its documented
  values. The lemmas give the signed value of each unit, so that a cadence built from
  them can be shown not to overflow.
\<close>

type_synonym Duration = int64

definition Millisecond :: Duration where
  [go_defs]: "Millisecond = 1000 * 1000"

definition Second :: Duration where
  [go_defs]: "Second = 1000 * Millisecond"

definition Minute :: Duration where
  [go_defs]: "Minute = 60 * Second"

definition Hour :: Duration where
  [go_defs]: "Hour = 60 * Minute"

definition Milliseconds :: "Duration \<Rightarrow> int64" where
  "Milliseconds d = int64_div d 1000000"

section \<open>The units as numbers of nanoseconds\<close>

lemma Millisecond_eq: "Millisecond = 1000000"
  by (simp add: go_defs)

lemma Second_eq: "Second = 1000000000"
  by (simp add: go_defs)

lemma Minute_eq: "Minute = 60000000000"
  by (simp add: go_defs)

lemma Hour_eq: "Hour = 3600000000000"
  by (simp add: go_defs)

lemmas unit_eqs = Millisecond_eq Second_eq Minute_eq Hour_eq

lemma sint_Millisecond [simp]: "sint Millisecond = 1000000"
  by (simp add: Millisecond_eq)

lemma sint_Second [simp]: "sint Second = 1000000000"
  by (simp add: Second_eq)

lemma sint_Minute [simp]: "sint Minute = 60000000000"
  by (simp add: Minute_eq)

lemma sint_Hour [simp]: "sint Hour = 3600000000000"
  by (simp add: Hour_eq)

section \<open>Whole milliseconds of a duration\<close>

lemma sint_Milliseconds: "sint (Milliseconds d) = sint d sdiv 1000000"
  using sint_int64_div [of 1000000 d] by (simp add: Milliseconds_def)

lemma Milliseconds_less_one_iff: "Milliseconds d <s 1 \<longleftrightarrow> sint d < 1000000"
  by (simp add: word_sless_alt sint_Milliseconds sdiv_less_one_iff)

lemma Milliseconds_less_one_iff_Millisecond: "Milliseconds d <s 1 \<longleftrightarrow> d <s Millisecond"
  by (simp add: Milliseconds_less_one_iff word_sless_alt [of d])

end
