(* ===== verification/Schedule.thy ===== *)
theory Schedule
  imports Duration
begin

text \<open>
  The recurring-task scheduler of \<^verbatim>\<open>src/schedule/interval.go\<close>.

  \<^item> Data: \<open>taskJob\<close> is the struct the cadence methods have as their receiver
    (\<open>work\<close>, \<open>interval\<close>, \<open>cancelFunc\<close>); \<open>world\<close> extends it with what exists
    only at run time: the background loops started so far (\<open>loops\<close>, one \<open>loop\<close>
    per call of \<open>run\<close>, never removed), the state the work callable closes over
    (\<open>env\<close>) and the logging sink (\<open>logged\<close>). A \<open>CancelFunc\<close> names the loop
    whose stop signal it closes.
  \<^item> Operations: the nineteen cadence methods \<open>Every\<close> \<dots> \<open>Yearly\<close>, each translated
    from its source lines (assign \<open>interval\<close>, call \<open>run\<close>, return \<open>cancelFunc\<close>);
    \<open>call\<close> and \<open>dispatch\<close> name them as one interface. \<open>NewTaskJob\<close>, \<open>run\<close>
    and \<open>invoke\<close> (calling a cancellation capability) are not in the repository's
    sources and follow the specification's sections 3 and 4.1.
  \<^item> Lemmas: the effect of \<open>invoke\<close> and \<open>run\<close> on each field, the abstract
    scheduler \<open>arm\<close> over the catalog \<open>cadence\<close> (with the catalog in nanoseconds,
    \<open>cadence_ns\<close>) and that \<open>dispatch\<close> refines it, the value of \<open>interval\<close>
    after each method, and that a capability is idempotent. The run loop itself is the
    theory \<open>Schedule_Loop\<close>.
\<close>

section \<open>Data\<close>

datatype outcome = Done | Failed string

datatype CancelFunc = NilCancel | StopLoop nat

record loop =
  period :: Duration
  stopped :: bool
  busy :: bool
  exited :: bool
  fired :: nat

record 'e taskJob =
  work :: "'e \<Rightarrow> outcome \<times> 'e"
  interval :: Duration
  cancelFunc :: CancelFunc

record 'e world = "'e taskJob" +
  loops :: "loop list"
  env :: 'e
  logged :: "string list"

section \<open>Construction, cancellation, start of the loop\<close>

definition NewTaskJob :: "('e \<Rightarrow> outcome \<times> 'e) \<Rightarrow> 'e \<Rightarrow> 'e world" where
  "NewTaskJob f e =
     \<lparr>work = f, interval = 0, cancelFunc = NilCancel, loops = [], env = e, logged = []\<rparr>"

definition stop_loop :: "nat \<Rightarrow> loop list \<Rightarrow> loop list" where
  "stop_loop i ls = (if i < length ls then ls[i := (ls ! i)\<lparr>stopped := True\<rparr>] else ls)"

fun invoke :: "CancelFunc \<Rightarrow> 'e world \<Rightarrow> 'e world" where
  "invoke NilCancel j = j"
| "invoke (StopLoop i) j = j\<lparr>loops := stop_loop i (loops j)\<rparr>"

definition new_loop :: "Duration \<Rightarrow> loop" where
  "new_loop d = \<lparr>period = d, stopped = False, busy = False, exited = False, fired = 0\<rparr>"

definition run :: "'e world \<Rightarrow> 'e world" where
  "run j =
     (let j1 = invoke (cancelFunc j) j
      in j1\<lparr>loops := loops j1 @ [new_loop (interval j1)],
            cancelFunc := StopLoop (length (loops j1))\<rparr>)"

section \<open>The cadence methods\<close>

definition Every :: "'e world \<Rightarrow> Duration \<Rightarrow> 'e world \<times> CancelFunc" where
  "Every j d =
     (let d1 = (if Milliseconds d <s 1 then Millisecond else d);
          j1 = j\<lparr>interval := d1\<rparr>;
          j2 = run j1
      in (j2, cancelFunc j2))"

definition EverySecond :: "'e world \<Rightarrow> 'e world \<times> CancelFunc" where
  "EverySecond j =
     (let j1 = j\<lparr>interval := Second\<rparr>; j2 = run j1 in (j2, cancelFunc j2))"

definition EveryFiveSeconds :: "'e world \<Rightarrow> 'e world \<times> CancelFunc" where
  "EveryFiveSeconds j =
     (let j1 = j\<lparr>interval := Second * 5\<rparr>; j2 = run j1 in (j2, cancelFunc j2))"

definition EveryTenSeconds :: "'e world \<Rightarrow> 'e world \<times> CancelFunc" where
  "EveryTenSeconds j =
     (let j1 = j\<lparr>interval := Second * 10\<rparr>; j2 = run j1 in (j2, cancelFunc j2))"

definition EveryTwentySeconds :: "'e world \<Rightarrow> 'e world \<times> CancelFunc" where
  "EveryTwentySeconds j =
     (let j1 = j\<lparr>interval := Second * 20\<rparr>; j2 = run j1 in (j2, cancelFunc j2))"

definition EveryThirtySeconds :: "'e world \<Rightarrow> 'e world \<times> CancelFunc" where
  "EveryThirtySeconds j =
     (let j1 = j\<lparr>interval := Second * 30\<rparr>; j2 = run j1 in (j2, cancelFunc j2))"

definition EveryMinute :: "'e world \<Rightarrow> 'e world \<times> CancelFunc" where
  "EveryMinute j =
     (let j1 = j\<lparr>interval := Minute\<rparr>; j2 = run j1 in (j2, cancelFunc j2))"

definition EveryFiveMinutes :: "'e world \<Rightarrow> 'e world \<times> CancelFunc" where
  "EveryFiveMinutes j =
     (let j1 = j\<lparr>interval := Minute * 5\<rparr>; j2 = run j1 in (j2, cancelFunc j2))"

definition EveryTenMinutes :: "'e world \<Rightarrow> 'e world \<times> CancelFunc" where
  "EveryTenMinutes j =
     (let j1 = j\<lparr>interval := Minute * 10\<rparr>; j2 = run j1 in (j2, cancelFunc j2))"

definition EveryTwentyMinutes :: "'e world \<Rightarrow> 'e world \<times> CancelFunc" where
  "EveryTwentyMinutes j =
     (let j1 = j\<lparr>interval := Minute * 20\<rparr>; j2 = run j1 in (j2, cancelFunc j2))"

definition EveryThirtyMinutes :: "'e world \<Rightarrow> 'e world \<times> CancelFunc" where
  "EveryThirtyMinutes j =
     (let j1 = j\<lparr>interval := Minute * 30\<rparr>; j2 = run j1 in (j2, cancelFunc j2))"

definition Hourly :: "'e world \<Rightarrow> 'e world \<times> CancelFunc" where
  "Hourly j =
     (let j1 = j\<lparr>interval := Hour\<rparr>; j2 = run j1 in (j2, cancelFunc j2))"

definition EveryFiveHours :: "'e world \<Rightarrow> 'e world \<times> CancelFunc" where
  "EveryFiveHours j =
     (let j1 = j\<lparr>interval := Hour * 5\<rparr>; j2 = run j1 in (j2, cancelFunc j2))"

definition EveryTenHours :: "'e world \<Rightarrow> 'e world \<times> CancelFunc" where
  "EveryTenHours j =
     (let j1 = j\<lparr>interval := Hour * 10\<rparr>; j2 = run j1 in (j2, cancelFunc j2))"

definition EveryTwentyHours :: "'e world \<Rightarrow> 'e world \<times> CancelFunc" where
  "EveryTwentyHours j =
     (let j1 = j\<lparr>interval := Hour * 20\<rparr>; j2 = run j1 in (j2, cancelFunc j2))"

definition Daily :: "'e world \<Rightarrow> 'e world \<times> CancelFunc" where
  "Daily j =
     (let j1 = j\<lparr>interval := Hour * 24\<rparr>; j2 = run j1 in (j2, cancelFunc j2))"

definition Weekly :: "'e world \<Rightarrow> 'e world \<times> CancelFunc" where
  "Weekly j =
     (let j1 = j\<lparr>interval := Hour * 24 * 7\<rparr>; j2 = run j1 in (j2, cancelFunc j2))"

definition Monthly :: "'e world \<Rightarrow> 'e world \<times> CancelFunc" where
  "Monthly j =
     (let j1 = j\<lparr>interval := Hour * 24 * 30\<rparr>; j2 = run j1 in (j2, cancelFunc j2))"

definition Yearly :: "'e world \<Rightarrow> 'e world \<times> CancelFunc" where
  "Yearly j =
     (let j1 = j\<lparr>interval := Hour * 24 * 365\<rparr>; j2 = run j1 in (j2, cancelFunc j2))"

lemmas named_cadence_defs =
  EverySecond_def EveryFiveSeconds_def EveryTenSeconds_def EveryTwentySeconds_def
  EveryThirtySeconds_def EveryMinute_def EveryFiveMinutes_def EveryTenMinutes_def
  EveryTwentyMinutes_def EveryThirtyMinutes_def Hourly_def EveryFiveHours_def
  EveryTenHours_def EveryTwentyHours_def Daily_def Weekly_def Monthly_def Yearly_def

section \<open>The methods as one interface\<close>

datatype call =
    CallEvery Duration
  | CallEverySecond | CallEveryFiveSeconds | CallEveryTenSeconds | CallEveryTwentySeconds
  | CallEveryThirtySeconds
  | CallEveryMinute | CallEveryFiveMinutes | CallEveryTenMinutes | CallEveryTwentyMinutes
  | CallEveryThirtyMinutes
  | CallHourly | CallEveryFiveHours | CallEveryTenHours | CallEveryTwentyHours
  | CallDaily | CallWeekly | CallMonthly | CallYearly

fun dispatch :: "call \<Rightarrow> 'e world \<Rightarrow> 'e world \<times> CancelFunc" where
  "dispatch (CallEvery d) j = Every j d"
| "dispatch CallEverySecond j = EverySecond j"
| "dispatch CallEveryFiveSeconds j = EveryFiveSeconds j"
| "dispatch CallEveryTenSeconds j = EveryTenSeconds j"
| "dispatch CallEveryTwentySeconds j = EveryTwentySeconds j"
| "dispatch CallEveryThirtySeconds j = EveryThirtySeconds j"
| "dispatch CallEveryMinute j = EveryMinute j"
| "dispatch CallEveryFiveMinutes j = EveryFiveMinutes j"
| "dispatch CallEveryTenMinutes j = EveryTenMinutes j"
| "dispatch CallEveryTwentyMinutes j = EveryTwentyMinutes j"
| "dispatch CallEveryThirtyMinutes j = EveryThirtyMinutes j"
| "dispatch CallHourly j = Hourly j"
| "dispatch CallEveryFiveHours j = EveryFiveHours j"
| "dispatch CallEveryTenHours j = EveryTenHours j"
| "dispatch CallEveryTwentyHours j = EveryTwentyHours j"
| "dispatch CallDaily j = Daily j"
| "dispatch CallWeekly j = Weekly j"
| "dispatch CallMonthly j = Monthly j"
| "dispatch CallYearly j = Yearly j"

section \<open>The abstract scheduler: one primitive and a catalog\<close>

text \<open>
  What the methods promise, written once: \<open>arm d\<close> stores the interval \<open>d\<close>,
  starts the loop and returns its capability; \<open>cadence\<close> is the catalog of the
  specification (section 4.1), each entry a fixed multiple of a unit and \<open>Every\<close>'s
  entry the request clamped to one millisecond; \<open>cadence_ns\<close> is the same catalog as
  a number of nanoseconds, computed in \<open>int\<close>, where nothing wraps.
\<close>

definition arm :: "Duration \<Rightarrow> 'e world \<Rightarrow> 'e world \<times> CancelFunc" where
  "arm d j = (let j' = run (j\<lparr>interval := d\<rparr>) in (j', cancelFunc j'))"

definition clamp_ms :: "Duration \<Rightarrow> Duration" where
  "clamp_ms d = (if d <s Millisecond then Millisecond else d)"

fun cadence :: "call \<Rightarrow> Duration" where
  "cadence (CallEvery d) = clamp_ms d"
| "cadence CallEverySecond = Second"
| "cadence CallEveryFiveSeconds = 5 * Second"
| "cadence CallEveryTenSeconds = 10 * Second"
| "cadence CallEveryTwentySeconds = 20 * Second"
| "cadence CallEveryThirtySeconds = 30 * Second"
| "cadence CallEveryMinute = Minute"
| "cadence CallEveryFiveMinutes = 5 * Minute"
| "cadence CallEveryTenMinutes = 10 * Minute"
| "cadence CallEveryTwentyMinutes = 20 * Minute"
| "cadence CallEveryThirtyMinutes = 30 * Minute"
| "cadence CallHourly = Hour"
| "cadence CallEveryFiveHours = 5 * Hour"
| "cadence CallEveryTenHours = 10 * Hour"
| "cadence CallEveryTwentyHours = 20 * Hour"
| "cadence CallDaily = 24 * Hour"
| "cadence CallWeekly = 7 * (24 * Hour)"
| "cadence CallMonthly = 30 * (24 * Hour)"
| "cadence CallYearly = 365 * (24 * Hour)"

definition hour_ns :: int where
  "hour_ns = 3600 * 1000000000"

fun cadence_ns :: "call \<Rightarrow> int" where
  "cadence_ns (CallEvery d) = max 1000000 (sint d)"
| "cadence_ns CallEverySecond = 1000000000"
| "cadence_ns CallEveryFiveSeconds = 5 * 1000000000"
| "cadence_ns CallEveryTenSeconds = 10 * 1000000000"
| "cadence_ns CallEveryTwentySeconds = 20 * 1000000000"
| "cadence_ns CallEveryThirtySeconds = 30 * 1000000000"
| "cadence_ns CallEveryMinute = 60 * 1000000000"
| "cadence_ns CallEveryFiveMinutes = 5 * 60 * 1000000000"
| "cadence_ns CallEveryTenMinutes = 10 * 60 * 1000000000"
| "cadence_ns CallEveryTwentyMinutes = 20 * 60 * 1000000000"
| "cadence_ns CallEveryThirtyMinutes = 30 * 60 * 1000000000"
| "cadence_ns CallHourly = hour_ns"
| "cadence_ns CallEveryFiveHours = 5 * hour_ns"
| "cadence_ns CallEveryTenHours = 10 * hour_ns"
| "cadence_ns CallEveryTwentyHours = 20 * hour_ns"
| "cadence_ns CallDaily = 24 * hour_ns"
| "cadence_ns CallWeekly = 7 * 24 * hour_ns"
| "cadence_ns CallMonthly = 30 * 24 * hour_ns"
| "cadence_ns CallYearly = 365 * 24 * hour_ns"

section \<open>What \<open>invoke\<close> and \<open>run\<close> change\<close>

lemma length_stop_loop [simp]: "length (stop_loop i ls) = length ls"
  by (simp add: stop_loop_def)

lemma nth_stop_loop:
  "k < length ls \<Longrightarrow>
   stop_loop i ls ! k = (if k = i then (ls ! k)\<lparr>stopped := True\<rparr> else ls ! k)"
  by (simp add: stop_loop_def nth_list_update)

lemma stop_loop_idem [simp]: "stop_loop i (stop_loop i ls) = stop_loop i ls"
  by (simp add: stop_loop_def)

lemma invoke_frame [simp]:
  "work (invoke c j) = work j"
  "interval (invoke c j) = interval j"
  "cancelFunc (invoke c j) = cancelFunc j"
  "env (invoke c j) = env j"
  "logged (invoke c j) = logged j"
  "length (loops (invoke c j)) = length (loops j)"
  by (cases c; simp)+

lemma invoke_idem [simp]: "invoke c (invoke c j) = invoke c j"
  by (cases c) simp_all

lemma loops_invoke:
  "loops (invoke c j) = (case c of NilCancel \<Rightarrow> loops j | StopLoop i \<Rightarrow> stop_loop i (loops j))"
  by (cases c) simp_all

lemma run_frame [simp]:
  "work (run j) = work j"
  "interval (run j) = interval j"
  "env (run j) = env j"
  "logged (run j) = logged j"
  by (simp_all add: run_def Let_def)

lemma cancelFunc_run [simp]: "cancelFunc (run j) = StopLoop (length (loops j))"
  by (simp add: run_def Let_def)

lemma loops_run:
  "loops (run j) = loops (invoke (cancelFunc j) j) @ [new_loop (interval j)]"
  by (simp add: run_def Let_def)

lemma length_loops_run [simp]: "length (loops (run j)) = Suc (length (loops j))"
  by (simp add: loops_run)

section \<open>Each method is \<open>arm\<close> at its catalog entry\<close>

lemma arm_frame [simp]:
  "interval (fst (arm d j)) = d"
  "work (fst (arm d j)) = work j"
  "env (fst (arm d j)) = env j"
  "logged (fst (arm d j)) = logged j"
  by (simp_all add: arm_def Let_def)

lemma snd_arm [simp]: "snd (arm d j) = StopLoop (length (loops j))"
  by (simp add: arm_def Let_def)

lemma cancelFunc_arm [simp]: "cancelFunc (fst (arm d j)) = StopLoop (length (loops j))"
  by (simp add: arm_def Let_def)

lemma loops_arm:
  "loops (fst (arm d j)) = loops (invoke (cancelFunc j) j) @ [new_loop d]"
  by (simp add: arm_def Let_def loops_run loops_invoke split: CancelFunc.splits)

lemma Every_arm: "Every j d = arm (cadence (CallEvery d)) j"
  by (simp add: Every_def arm_def clamp_ms_def Milliseconds_less_one_iff_Millisecond)

lemma named_cadence_arm:
  "EverySecond j = arm (cadence CallEverySecond) j"
  "EveryFiveSeconds j = arm (cadence CallEveryFiveSeconds) j"
  "EveryTenSeconds j = arm (cadence CallEveryTenSeconds) j"
  "EveryTwentySeconds j = arm (cadence CallEveryTwentySeconds) j"
  "EveryThirtySeconds j = arm (cadence CallEveryThirtySeconds) j"
  "EveryMinute j = arm (cadence CallEveryMinute) j"
  "EveryFiveMinutes j = arm (cadence CallEveryFiveMinutes) j"
  "EveryTenMinutes j = arm (cadence CallEveryTenMinutes) j"
  "EveryTwentyMinutes j = arm (cadence CallEveryTwentyMinutes) j"
  "EveryThirtyMinutes j = arm (cadence CallEveryThirtyMinutes) j"
  "Hourly j = arm (cadence CallHourly) j"
  "EveryFiveHours j = arm (cadence CallEveryFiveHours) j"
  "EveryTenHours j = arm (cadence CallEveryTenHours) j"
  "EveryTwentyHours j = arm (cadence CallEveryTwentyHours) j"
  "Daily j = arm (cadence CallDaily) j"
  "Weekly j = arm (cadence CallWeekly) j"
  "Monthly j = arm (cadence CallMonthly) j"
  "Yearly j = arm (cadence CallYearly) j"
  by (simp_all add: named_cadence_defs arm_def mult.commute)

lemma sint_clamp_ms: "sint (clamp_ms d) = max 1000000 (sint d)"
  by (simp add: clamp_ms_def word_sless_alt)

lemma sint_cadence: "sint (cadence c) = cadence_ns c"
  by (cases c) (simp_all add: sint_clamp_ms unit_eqs hour_ns_def del: sint_Hour)

lemma cadence_ns_ge_ms: "1000000 \<le> cadence_ns c"
  by (cases c) (simp_all add: hour_ns_def)

lemma cadence_ge_Millisecond: "Millisecond \<le>s cadence c"
  by (simp add: word_sle_eq sint_cadence cadence_ns_ge_ms)

lemma dispatch_arm: "dispatch c j = arm (cadence c) j"
  by (cases c) (simp_all only: dispatch.simps Every_arm named_cadence_arm)

section \<open>The interval each method sets\<close>

text \<open>
  C1. For every duration \<open>d\<close>, also a zero or negative one, \<open>Every\<close> leaves the
  job with the interval \<open>max (1 ms) d\<close>: a request below one millisecond is raised
  to exactly one millisecond, any other is stored as it is.
\<close>

theorem Every_interval:
  "sint (interval (fst (Every j d))) = max 1000000 (sint d)"
proof -
  have "interval (fst (Every j d)) = clamp_ms d"
    by (simp add: Every_arm)
  then show ?thesis
    by (simp add: sint_clamp_ms)
qed

text \<open>
  C3. Every public method of the task job is the one primitive \<open>arm\<close> applied to
  the method's entry in the catalog: the nineteen copies of "store the interval, start
  the loop, return the capability" in the source agree with the table-driven
  scheduler of the specification, on the whole resulting state and on the capability.
\<close>

theorem dispatch_refines_arm:
  "dispatch c j = arm (cadence c) j"
proof (cases c)
  case (CallEvery d)
  then show ?thesis
    by (simp only: dispatch.simps Every_arm)
qed (simp_all only: dispatch.simps named_cadence_arm)

text \<open>
  C2. After any method the stored interval, read as a signed 64-bit number of
  nanoseconds, is the documented one: no product such as \<open>Hour * 24 * 365\<close>
  wraps around, "monthly" is exactly 30 days and "yearly" exactly 365 days.
\<close>

theorem dispatch_interval_ns:
  "sint (interval (fst (dispatch c j))) = cadence_ns c"
proof -
  have "interval (fst (dispatch c j)) = cadence c"
    by (simp add: dispatch_arm)
  then show ?thesis
    by (simp add: sint_cadence)
qed

section \<open>The capability is idempotent\<close>


end
