(* ===== verification/Schedule_Loop.thy ===== *)
theory Schedule_Loop
  imports Schedule
begin

text \<open>
  The run loop of a task job as a state machine over \<open>world\<close>.

  The caller, the tickers and the work run concurrently; the model interleaves their
  atomic actions as events:
  \<^item> \<open>Call c\<close>: the caller invokes a cadence method (\<open>dispatch\<close>);
  \<^item> \<open>Tick i\<close>: loop \<open>i\<close> takes a tick of its timer and starts the work; only a loop
    that is neither stopped nor busy does;
  \<^item> \<open>Return i\<close>: the work started by loop \<open>i\<close> returns or panics; its effect on the
    environment happens here, a failure is reported to the log (\<open>report\<close>), the loop
    goes on;
  \<^item> \<open>Cancel i\<close>: somebody (the caller, another thread, the work itself) invokes the
    capability of loop \<open>i\<close>;
  \<^item> \<open>Exit i\<close>: loop \<open>i\<close> observes its stop signal, stops its timer and returns.
  \<open>apply_event\<close> is the executable step (\<open>None\<close>: the event is not enabled),
  \<open>run_events\<close> a whole schedule, \<open>step\<close> the same steps as a relation and
  \<open>reachable\<close> its closure. \<open>wf_world\<close> is the invariant: every loop was armed
  with at least one millisecond, every loop but the newest is stopped, an exited loop
  is stopped and idle, and the job's \<open>cancelFunc\<close> names the newest loop.
\<close>

section \<open>Events and their effect\<close>

datatype event = Call call | Tick nat | Return nat | Cancel nat | Exit nat

definition upd_loop :: "nat \<Rightarrow> (loop \<Rightarrow> loop) \<Rightarrow> 'e world \<Rightarrow> 'e world" where
  "upd_loop i f w = w\<lparr>loops := (loops w)[i := f (loops w ! i)]\<rparr>"

definition start_work :: "loop \<Rightarrow> loop" where
  "start_work l = l\<lparr>busy := True, fired := Suc (fired l)\<rparr>"

definition end_work :: "loop \<Rightarrow> loop" where
  "end_work l = l\<lparr>busy := False\<rparr>"

definition leave :: "loop \<Rightarrow> loop" where
  "leave l = l\<lparr>exited := True\<rparr>"

definition report :: "outcome \<Rightarrow> string list \<Rightarrow> string list" where
  "report r lg = (case r of Done \<Rightarrow> lg | Failed msg \<Rightarrow> lg @ [msg])"

definition can_tick :: "nat \<Rightarrow> 'e world \<Rightarrow> bool" where
  "can_tick i w \<longleftrightarrow> i < length (loops w) \<and> \<not> stopped (loops w ! i) \<and> \<not> busy (loops w ! i)"

definition can_return :: "nat \<Rightarrow> 'e world \<Rightarrow> bool" where
  "can_return i w \<longleftrightarrow> i < length (loops w) \<and> busy (loops w ! i)"

definition can_exit :: "nat \<Rightarrow> 'e world \<Rightarrow> bool" where
  "can_exit i w \<longleftrightarrow>
     i < length (loops w) \<and> stopped (loops w ! i) \<and> \<not> busy (loops w ! i) \<and> \<not> exited (loops w ! i)"

definition tick :: "nat \<Rightarrow> 'e world \<Rightarrow> 'e world option" where
  "tick i w = (if can_tick i w then Some (upd_loop i start_work w) else None)"

definition finish :: "nat \<Rightarrow> 'e world \<Rightarrow> 'e world option" where
  "finish i w =
     (if can_return i w
      then (case work w (env w) of
              (r, e') \<Rightarrow> Some ((upd_loop i end_work w)\<lparr>env := e', logged := report r (logged w)\<rparr>))
      else None)"

definition exit_loop :: "nat \<Rightarrow> 'e world \<Rightarrow> 'e world option" where
  "exit_loop i w = (if can_exit i w then Some (upd_loop i leave w) else None)"

fun apply_event :: "event \<Rightarrow> 'e world \<Rightarrow> 'e world option" where
  "apply_event (Call c) w = Some (fst (dispatch c w))"
| "apply_event (Tick i) w = tick i w"
| "apply_event (Return i) w = finish i w"
| "apply_event (Cancel i) w = Some (invoke (StopLoop i) w)"
| "apply_event (Exit i) w = exit_loop i w"

fun run_events :: "event list \<Rightarrow> 'e world \<Rightarrow> 'e world option" where
  "run_events [] w = Some w"
| "run_events (e # es) w =
     (case apply_event e w of None \<Rightarrow> None | Some w' \<Rightarrow> run_events es w')"

inductive step :: "'e world \<Rightarrow> event \<Rightarrow> 'e world \<Rightarrow> bool" where
  call: "step w (Call c) (fst (dispatch c w))"
| tick: "\<lbrakk>i < length (loops w); \<not> stopped (loops w ! i); \<not> busy (loops w ! i)\<rbrakk> \<Longrightarrow>
     step w (Tick i) (upd_loop i start_work w)"
| return: "\<lbrakk>i < length (loops w); busy (loops w ! i); work w (env w) = (r, e')\<rbrakk> \<Longrightarrow>
     step w (Return i) ((upd_loop i end_work w)\<lparr>env := e', logged := report r (logged w)\<rparr>)"
| cancel: "step w (Cancel i) (invoke (StopLoop i) w)"
| exit: "\<lbrakk>i < length (loops w); stopped (loops w ! i); \<not> busy (loops w ! i);
      \<not> exited (loops w ! i)\<rbrakk> \<Longrightarrow>
     step w (Exit i) (upd_loop i leave w)"

inductive reachable :: "'e world \<Rightarrow> 'e world \<Rightarrow> bool" for w0 where
  reach_init: "reachable w0 w0"
| reach_step: "reachable w0 w \<Longrightarrow> step w e w' \<Longrightarrow> reachable w0 w'"

inductive_cases step_CallE [elim!]: "step w (Call c) w'"
inductive_cases step_TickE [elim!]: "step w (Tick i) w'"
inductive_cases step_ReturnE [elim!]: "step w (Return i) w'"
inductive_cases step_CancelE [elim!]: "step w (Cancel i) w'"
inductive_cases step_ExitE [elim!]: "step w (Exit i) w'"

section \<open>Observations and the invariant\<close>

datatype lifecycle = Idle | Running | Cancelled

definition lifecycle :: "'e world \<Rightarrow> lifecycle" where
  "lifecycle w =
     (case cancelFunc w of
        NilCancel \<Rightarrow> Idle
      | StopLoop i \<Rightarrow>
          if i < length (loops w) \<and> \<not> stopped (loops w ! i) then Running else Cancelled)"

definition live_loops :: "'e world \<Rightarrow> loop list" where
  "live_loops w = filter (\<lambda>l. \<not> stopped l) (loops w)"

definition invocations :: "'e world \<Rightarrow> nat" where
  "invocations w = sum_list (map fired (loops w))"

definition is_Call :: "event \<Rightarrow> bool" where
  "is_Call e = (case e of Call _ \<Rightarrow> True | _ \<Rightarrow> False)"

definition wf_loop :: "loop \<Rightarrow> bool" where
  "wf_loop l \<longleftrightarrow> Millisecond \<le>s period l \<and> (exited l \<longrightarrow> stopped l \<and> \<not> busy l)"

definition wf_world :: "'e world \<Rightarrow> bool" where
  "wf_world w \<longleftrightarrow>
     list_all wf_loop (loops w) \<and> list_all stopped (butlast (loops w)) \<and>
     cancelFunc w = (if loops w = [] then NilCancel else StopLoop (length (loops w) - 1))"

section \<open>Schedules used in the statements\<close>

definition round_of :: "nat \<Rightarrow> event list" where
  "round_of i = [Tick i, Return i]"

primrec rounds :: "nat \<Rightarrow> nat \<Rightarrow> event list" where
  "rounds 0 i = []"
| "rounds (Suc n) i = rounds n i @ round_of i"

definition drain :: "nat \<Rightarrow> 'e world \<Rightarrow> event list" where
  "drain i w =
     (if busy (loops w ! i) then [Return i] else []) @
     (if exited (loops w ! i) then [] else [Exit i])"

definition in_flight :: "'e world \<Rightarrow> nat" where
  "in_flight w = length (filter busy (loops w))"

section \<open>A counting work and a failing work\<close>

definition counter_work :: "nat \<Rightarrow> outcome \<times> nat" where
  "counter_work n = (Done, Suc n)"

definition failing_work :: "string \<Rightarrow> nat \<Rightarrow> outcome \<times> nat" where
  "failing_work msg n = (Failed msg, n)"

definition demo :: "nat world" where
  "demo = fst (EverySecond (NewTaskJob counter_work 0))"

section \<open>Frame lemmas\<close>

lemma upd_loop_frame [simp]:
  "work (upd_loop i f w) = work w"
  "interval (upd_loop i f w) = interval w"
  "cancelFunc (upd_loop i f w) = cancelFunc w"
  "env (upd_loop i f w) = env w"
  "logged (upd_loop i f w) = logged w"
  "length (loops (upd_loop i f w)) = length (loops w)"
  by (simp_all add: upd_loop_def)

lemma nth_loops_upd_loop:
  "k < length (loops w) \<Longrightarrow>
   loops (upd_loop i f w) ! k = (if k = i then f (loops w ! k) else loops w ! k)"
  by (simp add: upd_loop_def nth_list_update)

lemma loops_invoke_StopLoop [simp]: "loops (invoke (StopLoop i) w) = stop_loop i (loops w)"
  by simp

lemma step_cancel_unfolded: "step w (Cancel i) (w\<lparr>loops := stop_loop i (loops w)\<rparr>)"
  using step.cancel [of w i] by simp

lemma step_iff_apply_event: "step w e w' \<longleftrightarrow> apply_event e w = Some w'"
  by (cases e)
     (auto simp: tick_def finish_def exit_loop_def can_tick_def can_return_def can_exit_def
           intro: step.intros step_cancel_unfolded split: prod.splits if_splits)

section \<open>The invariant is kept\<close>

lemma wf_world_iff:
  "wf_world w \<longleftrightarrow>
     (\<forall>i<length (loops w). wf_loop (loops w ! i)) \<and>
     (\<forall>i. Suc i < length (loops w) \<longrightarrow> stopped (loops w ! i)) \<and>
     cancelFunc w = (if length (loops w) = 0 then NilCancel else StopLoop (length (loops w) - 1))"
  unfolding wf_world_def list_all_butlast_iff by (simp add: list_all_length)

lemma wf_loop_new_loop [simp]: "wf_loop (new_loop d) \<longleftrightarrow> Millisecond \<le>s d"
  by (simp add: wf_loop_def new_loop_def)

lemma wf_loop_stop: "wf_loop l \<Longrightarrow> wf_loop (l\<lparr>stopped := True\<rparr>)"
  by (simp add: wf_loop_def)

lemma wf_loop_start_work: "wf_loop l \<Longrightarrow> \<not> stopped l \<Longrightarrow> wf_loop (start_work l)"
  by (auto simp: wf_loop_def start_work_def)

lemma wf_loop_end_work: "wf_loop l \<Longrightarrow> wf_loop (end_work l)"
  by (simp add: wf_loop_def end_work_def)

lemma wf_loop_leave: "wf_loop l \<Longrightarrow> stopped l \<Longrightarrow> \<not> busy l \<Longrightarrow> wf_loop (leave l)"
  by (simp add: wf_loop_def leave_def)

lemma stopped_simps [simp]:
  "stopped (start_work l) = stopped l"
  "stopped (end_work l) = stopped l"
  "stopped (leave l) = stopped l"
  "\<not> stopped (new_loop d)"
  by (simp_all add: start_work_def end_work_def leave_def new_loop_def)

lemma wf_world_NewTaskJob [simp]: "wf_world (NewTaskJob f e)"
  by (simp add: wf_world_def NewTaskJob_def)

lemma wf_world_invoke: "wf_world w \<Longrightarrow> wf_world (invoke c w)"
  by (cases c) (auto simp: wf_world_iff nth_stop_loop wf_loop_stop)

lemma wf_world_arm:
  assumes "wf_world w" and "Millisecond \<le>s d"
  shows "wf_world (fst (arm d w))"
proof (cases "loops w = []")
  case True
  with assms show ?thesis
    by (simp add: wf_world_iff loops_arm)
next
  case False
  with assms(1) have c: "cancelFunc w = StopLoop (length (loops w) - 1)"
    by (simp add: wf_world_iff)
  have "wf_loop (stop_loop (length (loops w) - 1) (loops w) ! i)"
     and "stopped (stop_loop (length (loops w) - 1) (loops w) ! i)"
    if "i < length (loops w)" for i
    using that assms(1) by (auto simp: wf_world_iff nth_stop_loop wf_loop_stop)
  with assms(2) c show ?thesis
    by (auto simp: wf_world_iff loops_arm nth_append less_Suc_eq)
qed

lemma wf_world_dispatch: "wf_world w \<Longrightarrow> wf_world (fst (dispatch c w))"
  by (simp add: dispatch_arm wf_world_arm cadence_ge_Millisecond)

lemma wf_world_upd_loop:
  assumes "wf_world w" and "i < length (loops w)"
    and "wf_loop (f (loops w ! i))" and "stopped (f (loops w ! i)) = stopped (loops w ! i)"
  shows "wf_world (upd_loop i f w)"
  using assms by (auto simp: wf_world_iff nth_loops_upd_loop)

lemma wf_world_env_logged [simp]: "wf_world (w\<lparr>env := e, logged := lg\<rparr>) = wf_world w"
  by (simp add: wf_world_def)

lemma wf_world_apply_event:
  assumes "wf_world w" and "apply_event e w = Some w'"
  shows "wf_world w'"
proof (cases e)
  case (Call c)
  with assms show ?thesis by (auto simp: wf_world_dispatch)
next
  case (Tick i)
  with assms show ?thesis
    by (auto simp: tick_def can_tick_def wf_world_iff [of w] split: if_splits
             intro!: wf_world_upd_loop wf_loop_start_work)
next
  case (Return i)
  with assms show ?thesis
    by (auto simp: finish_def can_return_def wf_world_iff [of w] split: if_splits prod.splits
             intro!: wf_world_upd_loop wf_loop_end_work)
next
  case (Cancel i)
  with assms show ?thesis
    using wf_world_invoke [of w "StopLoop i"] by auto
next
  case (Exit i)
  with assms show ?thesis
    by (auto simp: exit_loop_def can_exit_def wf_world_iff [of w] split: if_splits
             intro!: wf_world_upd_loop wf_loop_leave)
qed

lemma wf_world_run_events:
  "wf_world w \<Longrightarrow> run_events es w = Some w' \<Longrightarrow> wf_world w'"
  by (induction es arbitrary: w) (auto split: option.splits dest: wf_world_apply_event)

lemma reachable_wf_world: "reachable w0 w \<Longrightarrow> wf_world w0 \<Longrightarrow> wf_world w"
  by (induction rule: reachable.induct)
     (auto simp: step_iff_apply_event dest: wf_world_apply_event)

section \<open>One live loop, superseding, cancellation\<close>

lemma live_loops_wf:
  assumes "wf_world w"
  shows "live_loops w = (if loops w \<noteq> [] \<and> \<not> stopped (last (loops w)) then [last (loops w)] else [])"
proof -
  from assms have "list_all (\<lambda>l. \<not> \<not> stopped l) (butlast (loops w))"
    by (simp add: wf_world_def)
  then show ?thesis
    unfolding live_loops_def by (rule filter_butlast_none)
qed

lemma length_live_loops_wf: "wf_world w \<Longrightarrow> length (live_loops w) \<le> 1"
  by (simp add: live_loops_wf)

lemma last_loops_arm [simp]: "last (loops (fst (arm d w))) = new_loop d"
  by (simp add: loops_arm)

lemma loops_arm_nonempty [simp]: "loops (fst (arm d w)) \<noteq> []"
  by (simp add: loops_arm)

lemma live_loops_arm:
  "wf_world w \<Longrightarrow> Millisecond \<le>s d \<Longrightarrow> live_loops (fst (arm d w)) = [new_loop d]"
  by (simp add: live_loops_wf wf_world_arm)

lemma lifecycle_arm [simp]: "lifecycle (fst (arm d w)) = Running"
  by (simp add: lifecycle_def loops_arm nth_append)

text \<open>
  C4. In every state the job can reach from its construction, whatever methods are
  called and however ticks, returns, cancellations and exits interleave, at most one
  loop is live (not stopped): two loops never tick for the same job.
\<close>

theorem one_live_loop:
  assumes "reachable (NewTaskJob f e) w"
  shows "length (live_loops w) \<le> 1"
proof -
  from assms have "wf_world w"
    by (rule reachable_wf_world) simp
  then show ?thesis
    by (rule length_live_loops_wf)
qed

text \<open>
  C10. Every state the job can reach from its construction is well-formed: each loop's
  period is at least one millisecond, a loop that has exited is stopped and has no
  invocation in flight, every loop but the newest is stopped, and the stored capability
  is \<^verbatim>\<open>nil\<close> for a job without loops and names the newest loop otherwise.
\<close>

theorem reachable_well_formed:
  assumes "reachable (NewTaskJob f e) w"
  shows "wf_world w"
  using assms by (rule reachable_wf_world) simp

text \<open>
  C11. Calling any method on a well-formed job, running or not, leaves exactly one
  live loop, the new one, armed with the method's catalog interval; the job is
  \<open>Running\<close> and the returned capability names the new loop. A loop that was
  active before is superseded.
\<close>

theorem dispatch_supersedes:
  assumes "wf_world w"
  shows "live_loops (fst (dispatch c w)) = [new_loop (cadence c)] \<and>
         lifecycle (fst (dispatch c w)) = Running \<and>
         snd (dispatch c w) = StopLoop (length (loops w))"
  using assms by (simp add: dispatch_arm live_loops_arm cadence_ge_Millisecond)

lemma all_stopped_invoke_cancelFunc:
  assumes "wf_world w"
  shows "list_all stopped (loops (invoke (cancelFunc w) w))"
proof (cases "loops w = []")
  case True
  then show ?thesis by (simp add: loops_invoke split: CancelFunc.splits) (simp add: stop_loop_def)
next
  case False
  with assms have "cancelFunc w = StopLoop (length (loops w) - 1)"
    and "\<forall>i. Suc i < length (loops w) \<longrightarrow> stopped (loops w ! i)"
    by (simp_all add: wf_world_iff)
  then show ?thesis
    by (auto simp: list_all_length nth_stop_loop)
qed

lemma live_loops_all_stopped: "list_all stopped (loops w) \<Longrightarrow> live_loops w = []"
  by (simp add: live_loops_def filter_empty_conv list_all_iff)

lemma invocations_upd_loop:
  "i < length (loops w) \<Longrightarrow>
   invocations (upd_loop i f w) + fired (loops w ! i) = invocations w + fired (f (loops w ! i))"
  by (simp add: invocations_def upd_loop_def sum_list_map_update)

lemma fired_simps [simp]:
  "fired (start_work l) = Suc (fired l)"
  "fired (end_work l) = fired l"
  "fired (leave l) = fired l"
  "fired (new_loop d) = 0"
  by (simp_all add: start_work_def end_work_def leave_def new_loop_def)

lemma invocations_env_logged [simp]:
  "invocations (w\<lparr>env := e, logged := lg\<rparr>) = invocations w"
  by (simp add: invocations_def)

lemma map_fired_stop_loop [simp]: "map fired (stop_loop i ls) = map fired ls"
  by (simp add: stop_loop_def map_update list_update_same_conv)

lemma invocations_invoke [simp]: "invocations (invoke c w) = invocations w"
  by (cases c) (simp_all add: invocations_def)

lemma list_all_stopped_upd_loop:
  "list_all stopped (loops w) \<Longrightarrow> stopped (f (loops w ! i)) = stopped (loops w ! i) \<Longrightarrow>
   list_all stopped (loops (upd_loop i f w))"
  by (cases "i < length (loops w)")
     (auto simp: list_all_length upd_loop_def nth_list_update list_update_beyond)

lemma list_all_stopped_stop_loop:
  "list_all stopped ls \<Longrightarrow> list_all stopped (stop_loop i ls)"
  by (auto simp: list_all_length nth_stop_loop)

lemma quiet_event:
  assumes "list_all stopped (loops w)" and "\<not> is_Call e" and "apply_event e w = Some w'"
  shows "list_all stopped (loops w') \<and> invocations w' = invocations w"
proof (cases e)
  case (Call c)
  with assms(2) show ?thesis by (simp add: is_Call_def)
next
  case (Tick i)
  with assms show ?thesis
    by (auto simp: tick_def can_tick_def list_all_length split: if_splits)
next
  case (Return i)
  with assms show ?thesis
    using invocations_upd_loop [of i w end_work]
    by (auto simp: finish_def can_return_def list_all_stopped_upd_loop
             split: if_splits prod.splits)
next
  case (Cancel i)
  with assms show ?thesis
    by (auto simp: list_all_stopped_stop_loop invocations_def)
next
  case (Exit i)
  with assms show ?thesis
    using invocations_upd_loop [of i w leave]
    by (auto simp: exit_loop_def can_exit_def list_all_stopped_upd_loop split: if_splits)
qed

lemma quiet_run:
  "list_all stopped (loops w) \<Longrightarrow> \<not> list_ex is_Call es \<Longrightarrow> run_events es w = Some w' \<Longrightarrow>
   list_all stopped (loops w') \<and> invocations w' = invocations w"
proof (induction es arbitrary: w)
  case Nil
  then show ?case by simp
next
  case (Cons e es)
  from Cons.prems obtain w1 where e: "apply_event e w = Some w1" and es: "run_events es w1 = Some w'"
    by (auto split: option.splits)
  from Cons.prems e have "list_all stopped (loops w1) \<and> invocations w1 = invocations w"
    by (intro quiet_event) auto
  with Cons.IH [of w1] Cons.prems(2) es show ?case by simp
qed

text \<open>
  C5. Cancellation is terminal: after the job's capability has been invoked, no
  schedule of ticks, returns, further cancellations and exits starts another
  invocation of the work, and no loop is live, until a method is called again. (An
  invocation already in flight may still return.)
\<close>

theorem cancel_is_terminal:
  assumes "wf_world w" and "\<not> list_ex is_Call es"
    and "run_events es (invoke (cancelFunc w) w) = Some w'"
  shows "invocations w' = invocations w \<and> live_loops w' = []"
proof -
  from assms(1) have "list_all stopped (loops (invoke (cancelFunc w) w))"
    by (rule all_stopped_invoke_cancelFunc)
  from quiet_run [OF this assms(2,3)] show ?thesis
    by (simp add: live_loops_all_stopped)
qed

section \<open>Rounds of a loop, failure of the work\<close>

lemma run_events_append:
  "run_events (es @ fs) w = (case run_events es w of None \<Rightarrow> None | Some w' \<Rightarrow> run_events fs w')"
  by (induction es arbitrary: w) (auto split: option.splits)

lemma busy_simps [simp]:
  "busy (start_work l)"
  "\<not> busy (end_work l)"
  "busy (leave l) = busy l"
  "\<not> busy (new_loop d)"
  by (simp_all add: start_work_def end_work_def leave_def new_loop_def)

lemma exited_simps [simp]:
  "exited (start_work l) = exited l"
  "exited (end_work l) = exited l"
  "exited (leave l)"
  "\<not> exited (new_loop d)"
  by (simp_all add: start_work_def end_work_def leave_def new_loop_def)

lemma round_effect:
  assumes "can_tick i w"
  shows "\<exists>w'. run_events (round_of i) w = Some w' \<and>
           env w' = snd (work w (env w)) \<and>
           logged w' = report (fst (work w (env w))) (logged w) \<and>
           work w' = work w \<and> can_tick i w' \<and>
           invocations w' = Suc (invocations w)"
proof -
  let ?w1 = "upd_loop i start_work w"
  from assms have i: "i < length (loops w)" and t: "tick i w = Some ?w1"
    by (simp_all add: can_tick_def tick_def)
  from i have r: "can_return i ?w1"
    by (simp add: can_return_def nth_loops_upd_loop)
  obtain r e' where we: "work w (env w) = (r, e')"
    by (cases "work w (env w)")
  let ?w2 = "(upd_loop i end_work ?w1)\<lparr>env := e', logged := report r (logged w)\<rparr>"
  from r we have f: "finish i ?w1 = Some ?w2"
    by (simp add: finish_def)
  from i assms have "can_tick i ?w2"
    by (simp add: can_tick_def nth_loops_upd_loop)
  moreover from i have "invocations ?w2 = Suc (invocations w)"
    using invocations_upd_loop [of i w start_work] invocations_upd_loop [of i ?w1 end_work]
    by (simp add: nth_loops_upd_loop)
  ultimately show ?thesis
    using t f we by (simp add: round_of_def)
qed

lemma rounds_failing:
  assumes "can_tick i w" and "\<forall>e. fst (work w e) = Failed msg"
  shows "\<exists>w'. run_events (rounds n i) w = Some w' \<and> work w' = work w \<and>
           logged w' = logged w @ replicate n msg \<and>
           invocations w' = invocations w + n \<and> can_tick i w'"
proof (induction n)
  case 0
  with assms(1) show ?case by simp
next
  case (Suc n)
  then obtain w1 where w1: "run_events (rounds n i) w = Some w1" "work w1 = work w"
    "logged w1 = logged w @ replicate n msg" "invocations w1 = invocations w + n" "can_tick i w1"
    by blast
  from round_effect [OF w1(5)] obtain w2 where w2: "run_events (round_of i) w1 = Some w2"
    "logged w2 = report (fst (work w1 (env w1))) (logged w1)" "work w2 = work w1"
    "can_tick i w2" "invocations w2 = Suc (invocations w1)"
    by blast
  from w1 w2 assms(2) show ?case
    by (simp add: run_events_append report_def replicate_append_same)
qed

lemma can_tick_arm: "can_tick (length (loops w)) (fst (arm d w))"
  by (simp add: can_tick_def loops_arm nth_append)

lemma invocations_arm [simp]: "invocations (fst (arm d w)) = invocations w"
  by (simp add: invocations_def loops_arm loops_invoke split: CancelFunc.splits)

text \<open>
  C6. A failing work does not end the loop. If the work fails on every invocation,
  then after any method the new loop can run any number \<open>n\<close> of ticks one after the
  other: every failure is reported to the log once, in order, \<open>n\<close> invocations are
  counted, and the loop is ready for the next tick.
\<close>

theorem failing_work_keeps_loop:
  assumes "\<forall>e. fst (work w e) = Failed msg"
  shows "\<exists>w'. run_events (rounds n (length (loops w))) (fst (dispatch c w)) = Some w' \<and>
           logged w' = logged w @ replicate n msg \<and>
           invocations w' = invocations w + n \<and>
           can_tick (length (loops w)) w'"
proof -
  let ?w = "fst (dispatch c w)"
  have "can_tick (length (loops w)) ?w" and "\<forall>e. fst (work ?w e) = Failed msg"
    using assms by (simp_all add: dispatch_arm can_tick_arm)
  from rounds_failing [OF this, of n] show ?thesis
    by (auto simp: dispatch_arm)
qed


lemma busy_stop_loop [simp]: "k < length ls \<Longrightarrow> busy (stop_loop i ls ! k) = busy (ls ! k)"
  by (simp add: nth_stop_loop)

lemma busy_loops_arm:
  "k < length (loops w) \<Longrightarrow> busy (loops (fst (arm d w)) ! k) = busy (loops w ! k)"
  by (simp add: loops_arm loops_invoke nth_append split: CancelFunc.splits)

lemma length_loops_arm [simp]: "length (loops (fst (arm d w))) = Suc (length (loops w))"
  by (simp add: loops_arm)

lemma busy_event:
  assumes "apply_event e w = Some w'" and "i < length (loops w)"
  shows "i < length (loops w') \<and>
         (of_bool (e = Tick i) + of_bool (busy (loops w ! i)) :: nat) =
         of_bool (e = Return i) + of_bool (busy (loops w' ! i))"
proof (cases e)
  case (Call c)
  with assms show ?thesis
    by (auto simp: dispatch_arm busy_loops_arm)
next
  case (Tick k)
  with assms show ?thesis
    by (auto simp: tick_def can_tick_def nth_loops_upd_loop split: if_splits)
next
  case (Return k)
  with assms show ?thesis
    by (auto simp: finish_def can_return_def nth_loops_upd_loop split: if_splits prod.splits)
next
  case (Cancel k)
  with assms show ?thesis
    by auto
next
  case (Exit k)
  with assms show ?thesis
    by (auto simp: exit_loop_def can_exit_def nth_loops_upd_loop split: if_splits)
qed

text \<open>
  C7. Ticks of one loop do not overlap. Along every schedule that the machine can
  run, for each loop the number of invocations started equals the number returned,
  plus one exactly when an invocation is in flight at the end: a loop never starts the
  work again before its previous invocation has returned.
\<close>

theorem ticks_do_not_overlap:
  assumes "run_events es w = Some w'" and "i < length (loops w)"
  shows "count_list es (Tick i) + of_bool (busy (loops w ! i)) =
         count_list es (Return i) + of_bool (busy (loops w' ! i))"
  using assms
proof (induction es arbitrary: w)
  case Nil
  then show ?case by simp
next
  case (Cons e es)
  from Cons.prems(1) obtain w1 where e: "apply_event e w = Some w1"
    and es: "run_events es w1 = Some w'"
    by (auto split: option.splits)
  from busy_event [OF e Cons.prems(2)] have i: "i < length (loops w1)"
    and b: "(of_bool (e = Tick i) + of_bool (busy (loops w ! i)) :: nat) =
            of_bool (e = Return i) + of_bool (busy (loops w1 ! i))"
    by simp_all
  from Cons.IH [OF es i] b show ?case
    by (auto split: if_splits)
qed


text \<open>
  C8. Cancellation does not deadlock. From a well-formed state a stopped loop
  reaches its exit by the schedule \<open>drain\<close>: the invocation in flight, if there is
  one (as when the work cancelled its own job), returns, then the loop observes the
  stop signal and leaves; no new invocation starts on the way.
\<close>

theorem cancelled_loop_exits:
  assumes "wf_world w" and "i < length (loops w)" and "stopped (loops w ! i)"
  shows "\<exists>w'. run_events (drain i w) w = Some w' \<and> exited (loops w' ! i) \<and>
           invocations w' = invocations w"
proof -
  from assms(1,2) have wf: "wf_loop (loops w ! i)"
    by (simp add: wf_world_iff)
  show ?thesis
  proof (cases "busy (loops w ! i)")
    case True
    with wf have ne: "\<not> exited (loops w ! i)"
      by (auto simp: wf_loop_def)
    obtain r e' where we: "work w (env w) = (r, e')"
      by (cases "work w (env w)")
    let ?w1 = "(upd_loop i end_work w)\<lparr>env := e', logged := report r (logged w)\<rparr>"
    from True assms(2) we have 1: "finish i w = Some ?w1"
      by (simp add: finish_def can_return_def)
    from assms(2,3) ne have 2: "can_exit i ?w1"
      by (simp add: can_exit_def nth_loops_upd_loop)
    from assms(2) have "invocations (upd_loop i leave ?w1) = invocations w"
      using invocations_upd_loop [of i w end_work] invocations_upd_loop [of i ?w1 leave]
      by (simp add: nth_loops_upd_loop)
    with True ne 1 2 assms(2) show ?thesis
      by (simp add: drain_def exit_loop_def nth_loops_upd_loop)
  next
    case False
    show ?thesis
    proof (cases "exited (loops w ! i)")
      case True
      with False show ?thesis by (simp add: drain_def)
    next
      case ne: False
      from assms(2) have "invocations (upd_loop i leave w) = invocations w"
        using invocations_upd_loop [of i w leave] by simp
      with False ne assms(2,3) show ?thesis
        by (simp add: drain_def exit_loop_def can_exit_def nth_loops_upd_loop)
    qed
  qed
qed





section \<open>Closed instances\<close>

lemmas machine_defs =
  tick_def finish_def exit_loop_def can_tick_def can_return_def can_exit_def upd_loop_def
  start_work_def end_work_def leave_def report_def stop_loop_def new_loop_def
  live_loops_def invocations_def in_flight_def round_of_def drain_def

lemma demo_eq:
  "demo = \<lparr>work = counter_work, interval = Second, cancelFunc = StopLoop 0,
           loops = [new_loop Second], env = 0, logged = []\<rparr>"
  by (simp add: demo_def EverySecond_def run_def NewTaskJob_def Let_def)

lemma wf_world_demo: "wf_world demo"
  using wf_world_dispatch [of "NewTaskJob counter_work 0" CallEverySecond]
  by (simp add: demo_def)

lemma reachable_demo: "reachable (NewTaskJob counter_work (0::nat)) demo"
  unfolding demo_def
  using reach_step [OF reach_init step.call [of _ CallEverySecond]] by simp

theorem one_live_loop_witness:
  "reachable (NewTaskJob counter_work 0) demo \<and> length (live_loops demo) \<le> 1"
  using one_live_loop [OF reachable_demo] reachable_demo by simp

theorem reachable_well_formed_witness:
  "reachable (NewTaskJob counter_work 0) demo \<and> wf_world demo"
  using reachable_well_formed [OF reachable_demo] reachable_demo by simp

theorem dispatch_supersedes_witness:
  "wf_world demo \<and>
   live_loops (fst (dispatch CallDaily demo)) = [new_loop (cadence CallDaily)] \<and>
   lifecycle (fst (dispatch CallDaily demo)) = Running \<and>
   snd (dispatch CallDaily demo) = StopLoop (length (loops demo))"
  using dispatch_supersedes [OF wf_world_demo, of CallDaily] wf_world_demo by simp

theorem cancel_is_terminal_witness:
  "wf_world demo \<and> \<not> list_ex is_Call [Exit 0, Cancel 0] \<and>
   (\<exists>w'. run_events [Exit 0, Cancel 0] (invoke (cancelFunc demo) demo) = Some w' \<and>
      invocations w' = invocations demo \<and> live_loops w' = [])"
proof -
  have c: "\<not> list_ex is_Call [Exit 0, Cancel 0]"
    by (simp add: is_Call_def)
  obtain w' where r: "run_events [Exit 0, Cancel 0] (invoke (cancelFunc demo) demo) = Some w'"
    by (simp add: demo_eq machine_defs)
  from cancel_is_terminal [OF wf_world_demo c r] wf_world_demo c r show ?thesis
    by blast
qed

theorem failing_work_keeps_loop_witness:
  "(\<forall>e. fst (work (NewTaskJob (failing_work ''boom'') (0::nat)) e) = Failed ''boom'') \<and>
   (\<exists>w'. run_events (rounds 3 (length (loops (NewTaskJob (failing_work ''boom'') (0::nat)))))
            (fst (dispatch CallEverySecond (NewTaskJob (failing_work ''boom'') 0))) = Some w' \<and>
      logged w' = logged (NewTaskJob (failing_work ''boom'') (0::nat)) @ replicate 3 ''boom'' \<and>
      invocations w' = invocations (NewTaskJob (failing_work ''boom'') (0::nat)) + 3 \<and>
      can_tick (length (loops (NewTaskJob (failing_work ''boom'') (0::nat)))) w')"
proof -
  have h: "\<forall>e. fst (work (NewTaskJob (failing_work ''boom'') (0::nat)) e) = Failed ''boom''"
    by (simp add: NewTaskJob_def failing_work_def)
  from failing_work_keeps_loop [OF h, of 3 CallEverySecond] h show ?thesis
    by blast
qed

theorem ticks_do_not_overlap_witness:
  "\<exists>w'. run_events [Tick 0, Return 0, Tick 0] demo = Some w' \<and> 0 < length (loops demo) \<and>
     count_list [Tick 0, Return 0, Tick 0] (Tick 0) + of_bool (busy (loops demo ! 0)) =
     count_list [Tick 0, Return 0, Tick 0] (Return 0) + of_bool (busy (loops w' ! 0))"
proof -
  obtain w' where r: "run_events [Tick 0, Return 0, Tick 0] demo = Some w'"
    by (simp add: demo_eq machine_defs counter_work_def)
  have l: "0 < length (loops demo)"
    by (simp add: demo_eq)
  from ticks_do_not_overlap [OF r l] r l show ?thesis
    by blast
qed

theorem cancelled_loop_exits_witness:
  "wf_world (invoke (StopLoop 0) demo) \<and> 0 < length (loops (invoke (StopLoop 0) demo)) \<and>
   stopped (loops (invoke (StopLoop 0) demo) ! 0) \<and>
   (\<exists>w'. run_events (drain 0 (invoke (StopLoop 0) demo)) (invoke (StopLoop 0) demo) = Some w' \<and>
      exited (loops w' ! 0) \<and> invocations w' = invocations (invoke (StopLoop 0) demo))"
proof -
  have wf: "wf_world (invoke (StopLoop 0) demo)"
    using wf_world_demo by (rule wf_world_invoke)
  have l: "0 < length (loops (invoke (StopLoop 0) demo))"
    and s: "stopped (loops (invoke (StopLoop 0) demo) ! 0)"
    by (simp_all add: demo_eq stop_loop_def)
  from cancelled_loop_exits [OF wf l s] wf l s show ?thesis
    by blast
qed

end
