(* ===== verification/Schedule_Timed.thy ===== *)
theory Schedule_Timed
  imports Schedule_Loop
begin

text \<open>
  The run loop in time. \<open>Schedule_Loop\<close> says which invocations of the work can happen
  and in which order; this theory says when they start, for the loop the
  specification describes: a repeating timer armed at the interval, whose ticks are
  taken one at a time, a tick that falls into a running invocation being kept (one at
  most) and taken as soon as the invocation returns.

  Time is a number of nanoseconds since the loop was armed. \<open>start_time d c n\<close> is the
  instant at which the \<open>n\<close>-th invocation starts when the interval is \<open>d\<close> and the
  \<open>k\<close>-th invocation takes \<open>c k\<close>; \<open>started_by d c t\<close> counts the invocations started
  up to the instant \<open>t\<close>. The scenario of the specification (every second, observed
  after three and a half seconds, then cancelled) is stated over both models.
\<close>

section \<open>Definitions\<close>

fun start_time :: "nat \<Rightarrow> (nat \<Rightarrow> nat) \<Rightarrow> nat \<Rightarrow> nat" where
  "start_time d c 0 = 0"
| "start_time d c (Suc n) =
     max (start_time d c n + (if n = 0 then 0 else c n)) (d * (start_time d c n div d + 1))"




section \<open>Start times\<close>

lemma start_time_ge:
  assumes "0 < d"
  shows "n * d \<le> start_time d c n"
proof (induction n)
  case 0
  show ?case by simp
next
  case (Suc n)
  with assms have "n \<le> start_time d c n div d"
    by (simp add: less_eq_div_iff_mult_less_eq)
  then have "d * Suc n \<le> d * (start_time d c n div d + 1)"
    by (intro mult_le_mono2) simp
  then show ?case
    by (simp add: mult.commute max.coboundedI2)
qed





section \<open>After cancellation nothing runs\<close>



section \<open>The period a method sets, and the job of the scenario\<close>





section \<open>Theorems\<close>





end
