(* ===== verification/Schedule_Lifecycle.thy ===== *)
theory Schedule_Lifecycle
  imports Schedule_Loop
begin

text \<open>
  The state machine of section 4.1 of the specification (idle, running, cancelled) as
  an abstract machine, and the run loop of \<open>Schedule_Loop\<close> as its refinement.

  \<^item> \<open>action\<close> is what an event means for the job as a whole: a method call arms a
    loop, the invocation of the job's current capability stops it, and every other
    event (a tick, a return, an exit, the capability of a superseded loop) leaves the
    job's state as it is. \<open>action_of\<close> reads the action off an event.
  \<^item> \<open>lifecycle_step\<close> is the transition function of the abstract machine.
  \<^item> The abstraction function is \<open>lifecycle\<close> of \<open>Schedule_Loop\<close>.
\<close>

section \<open>Definitions\<close>

datatype action = Arm | Stop | Other

fun lifecycle_step :: "action \<Rightarrow> lifecycle \<Rightarrow> lifecycle" where
  "lifecycle_step Arm s = Running"
| "lifecycle_step Stop Idle = Idle"
| "lifecycle_step Stop Running = Cancelled"
| "lifecycle_step Stop Cancelled = Cancelled"
| "lifecycle_step Other s = s"

definition action_of :: "'e world \<Rightarrow> event \<Rightarrow> action" where
  "action_of w e =
     (case e of
        Call c \<Rightarrow> Arm
      | Cancel i \<Rightarrow> if cancelFunc w = StopLoop i then Stop else Other
      | _ \<Rightarrow> Other)"

section \<open>Events that keep the stop signals\<close>

lemma lifecycle_cong:
  assumes "cancelFunc w' = cancelFunc w" and "map stopped (loops w') = map stopped (loops w)"
  shows "lifecycle w' = lifecycle w"
proof -
  from assms(2) have "length (loops w') = length (loops w)"
    by (rule map_eq_imp_length_eq)
  moreover from assms(2) have "stopped (loops w' ! i) = stopped (loops w ! i)"
    if "i < length (loops w)" for i
    using that nth_map [of i "loops w" stopped] nth_map [of i "loops w'" stopped]
    by (simp add: \<open>length (loops w') = length (loops w)\<close>)
  ultimately show ?thesis
    using assms(1) by (auto simp: lifecycle_def split: CancelFunc.splits)
qed

lemma lifecycle_NewTaskJob [simp]: "lifecycle (NewTaskJob f e) = Idle"
  by (simp add: lifecycle_def NewTaskJob_def)

lemma map_stopped_upd_loop:
  assumes "\<And>l. stopped (f l) = stopped l"
  shows "map stopped (loops (upd_loop i f w)) = map stopped (loops w)"
  by (cases "i < length (loops w)")
     (simp_all add: upd_loop_def map_update assms list_update_same_conv list_update_beyond)

lemma lifecycle_upd_loop:
  "(\<And>l. stopped (f l) = stopped l) \<Longrightarrow> lifecycle (upd_loop i f w) = lifecycle w"
  by (rule lifecycle_cong) (simp_all add: map_stopped_upd_loop)

lemma lifecycle_env_logged [simp]: "lifecycle (w\<lparr>env := e, logged := lg\<rparr>) = lifecycle w"
  by (rule lifecycle_cong) simp_all

section \<open>Cancellation\<close>

lemma lifecycle_invoke_current:
  assumes "wf_world w" and "cancelFunc w = StopLoop i"
  shows "lifecycle (invoke (StopLoop i) w) = Cancelled" and "lifecycle w \<noteq> Idle"
proof -
  from assms have "loops w \<noteq> []" and "i = length (loops w) - 1"
    by (auto simp: wf_world_def split: if_splits)
  then have "i < length (loops w)"
    by simp
  with assms(2) show "lifecycle (invoke (StopLoop i) w) = Cancelled"
    by (simp add: lifecycle_def stop_loop_def)
  from assms(2) show "lifecycle w \<noteq> Idle"
    by (simp add: lifecycle_def)
qed

lemma lifecycle_invoke_other:
  assumes "cancelFunc w \<noteq> StopLoop i"
  shows "lifecycle (invoke (StopLoop i) w) = lifecycle w"
  using assms
  by (cases "cancelFunc w") (auto simp: lifecycle_def stop_loop_def nth_list_update)

section \<open>Theorems\<close>

text \<open>
  C16. The run loop refines the state machine of the specification: from a well-formed
  state every event that the machine can take changes the job's state (idle, running,
  cancelled) as the abstract transition for the event's action says. A method call
  leads to running from every state, the job's current capability leads to cancelled,
  and ticks, returns, exits and the capabilities of superseded loops change nothing.
\<close>

theorem lifecycle_refinement:
  assumes "wf_world w" and "apply_event e w = Some w'"
  shows "lifecycle w' = lifecycle_step (action_of w e) (lifecycle w)"
proof (cases e)
  case (Call c)
  with assms(2) show ?thesis
    by (auto simp: action_of_def dispatch_arm)
next
  case (Tick i)
  with assms(2) show ?thesis
    by (auto simp: action_of_def tick_def lifecycle_upd_loop split: if_splits)
next
  case (Return i)
  with assms(2) show ?thesis
    by (auto simp: action_of_def finish_def lifecycle_upd_loop split: if_splits prod.splits)
next
  case (Cancel i)
  with assms(2) have w': "w' = invoke (StopLoop i) w"
    by simp
  show ?thesis
  proof (cases "cancelFunc w = StopLoop i")
    case True
    with lifecycle_invoke_current [OF assms(1) True] show ?thesis
      unfolding w' Cancel by (cases "lifecycle w") (simp_all add: action_of_def)
  next
    case False
    with lifecycle_invoke_other [OF False] show ?thesis
      unfolding w' Cancel by (simp add: action_of_def)
  qed
next
  case (Exit i)
  with assms(2) show ?thesis
    by (auto simp: action_of_def exit_loop_def lifecycle_upd_loop split: if_splits)
qed

theorem lifecycle_refinement_witness:
  "wf_world demo \<and> apply_event (Cancel 0) demo = Some (invoke (StopLoop 0) demo) \<and>
   lifecycle demo = Running \<and> action_of demo (Cancel 0) = Stop \<and>
   lifecycle (invoke (StopLoop 0) demo) = Cancelled"
  using lifecycle_refinement [OF wf_world_demo, of "Cancel 0" "invoke (StopLoop 0) demo"]
    wf_world_demo
  by (simp add: action_of_def demo_eq lifecycle_def new_loop_def)

end
