(* ===== verification/Number.thy ===== *)
theory Number
  imports Prelude
begin

text \<open>
  The integer helpers of \<^verbatim>\<open>src/utils/number.go\<close>.

  \<^item> \<open>RandomInt64\<close> follows the source branch by branch. The random source is an
    argument: \<open>r\<close> is what the generator draws, and \<open>Int63n r n\<close> is the library
    call \<^verbatim>\<open>rand.Int63n(n)\<close> (a panic for \<open>n \<le> 0\<close>, else a value in \<open>[0, n)\<close>, every
    such value for some draw). A statement for all \<open>r\<close> is a statement about every
    possible run.
  \<^item> \<open>Pow64\<close> is \<^verbatim>\<open>Pow\<close> (the name \<open>Pow\<close> is HOL's power set); \<open>pow_loop\<close> is
    its \<^verbatim>\<open>for\<close> loop with the counter \<^verbatim>\<open>times\<close> as the argument \<open>t\<close>. The loop
    counts in 64 bits, so the distance from the counter to \<open>y\<close> shrinks in every
    iteration whatever the start: that is its termination measure.
  \<^item> All arithmetic is on \<open>int64\<close> words and wraps as Go's does.
  \<^verbatim>\<open>RandomFloat64\<close>, which calls \<open>RandomInt64\<close>, is in the theory \<open>Random_Float\<close>.
\<close>

section \<open>Definitions\<close>

definition Int63n :: "nat \<Rightarrow> int64 \<Rightarrow> int64 result" where
  "Int63n r n =
     (if n \<le>s 0 then Inl (Panic ''invalid argument to Int63n'')
      else Inr (word_of_int (int r mod sint n)))"

definition RandomInt64 :: "nat \<Rightarrow> int64 \<Rightarrow> int64 \<Rightarrow> int64 result" where
  "RandomInt64 r start endv =
     (if endv <s start then Inl (Panic ''range invalid: start great than end'')
      else if start = endv then Inr start
      else if start <s 0 \<and> endv <s 0 then
        (let fixedStart = 0 - start; fixedEnd = 0 - endv
         in case Int63n r fixedStart of
              Inl p \<Rightarrow> Inl p
            | Inr v \<Rightarrow> Inr (0 - (fixedEnd + v)))
      else if start <s 0 \<and> 0 \<le>s endv then
        (let fixed = 0 - start
         in case Int63n r (fixed + endv) of
              Inl p \<Rightarrow> Inl p
            | Inr v \<Rightarrow> Inr (v - fixed))
      else if start = 0 then Int63n r endv
      else Inr start)"

function pow_loop :: "int64 \<Rightarrow> int64 \<Rightarrow> int64 \<Rightarrow> int64" where
  "pow_loop x y t =
     (let t1 = t + 1
      in if t1 = y then x else pow_loop (x * x) y t1)"
  by pat_completeness auto
termination
proof (relation "measure (\<lambda>(x, y, t). unat (y - t - 1))")
  show "wf (measure (\<lambda>(x, y, t). unat (y - t - 1)))"
    by simp
next
  fix x y t t1 :: int64
  assume "t1 = t + 1" and "t1 \<noteq> y"
  then show "((x * x, y, t1), (x, y, t)) \<in> measure (\<lambda>(x, y, t). unat (y - t - 1))"
    by (simp add: gap_step)
qed

definition Pow64 :: "int64 \<Rightarrow> int64 \<Rightarrow> int64 result" where
  "Pow64 x y =
     (if y <s 0 then Inl (Panic ''y less than zero'')
      else if y = 0 then Inr 1
      else if y = 1 then Inr x
      else Inr (pow_loop x y 0))"

section \<open>The random source\<close>

lemma Int63n_range:
  assumes "0 < sint n"
  shows "\<exists>v. Int63n r n = Inr v \<and> sint v = int r mod sint n \<and> 0 \<le> sint v \<and> sint v < sint n"
proof -
  have "0 \<le> int r mod sint n" and "int r mod sint n < sint n"
    using assms by simp_all
  moreover from this have "in_int64 (int r mod sint n)"
    using sint_int64_numeral_bounds [of n] by (simp add: in_int64_def)
  ultimately show ?thesis
    using assms by (simp add: Int63n_def word_sle_eq sint_int64)
qed

lemma Int63n_panics: "sint n \<le> 0 \<Longrightarrow> Int63n r n = Inl (Panic ''invalid argument to Int63n'')"
  by (simp add: Int63n_def word_sle_eq)

section \<open>The loop of \<open>Pow64\<close>\<close>

declare pow_loop.simps [simp del]

lemma pow_loop_closed: "pow_loop x y t = x ^ (2 ^ unat (y - t - 1))"
proof (induction x y t rule: pow_loop.induct)
  case (1 x y t)
  show ?case
  proof (cases "t + 1 = y")
    case True
    then have "y - t - 1 = 0"
      by (simp add: gap_one_iff)
    with True show ?thesis
      by (simp add: pow_loop.simps [of x y t])
  next
    case False
    with "1.IH" have "pow_loop (x * x) y (t + 1) = (x * x) ^ (2 ^ unat (y - (t + 1) - 1))"
      by simp
    with False show ?thesis
      by (simp add: pow_loop.simps [of x y t] gap_step power_mult power2_eq_square)
  qed
qed

section \<open>A range around zero\<close>

lemma RandomInt64_straddles_zero:
  assumes "sint start \<le> 0" and "0 \<le> sint endv" and "sint start < sint endv"
    and "in_int64 (sint endv - sint start)"
  shows "\<exists>v. RandomInt64 r start endv = Inr v \<and> sint start \<le> sint v \<and> sint v < sint endv"
proof (cases "sint start < 0")
  case True
  with assms(2,4) have ns: "sint (- start) = - sint start"
    by (intro sint_neg_int64) (auto simp: in_int64_def)
  with assms(4) have s: "sint (- start + endv) = sint endv - sint start"
    using sint_int64_add [of "- start" endv] by simp
  with assms(3) obtain v where v: "Int63n r (- start + endv) = Inr v"
    "0 \<le> sint v" "sint v < sint endv - sint start"
    using Int63n_range [of "- start + endv" r] by auto
  with ns assms(1,2) have "sint (v - (- start)) = sint v + sint start"
    using sint_int64_diff [of v "- start"] sint_int64_numeral_bounds [of start]
      sint_int64_numeral_bounds [of endv]
    by (simp add: in_int64_def)
  with v True assms(2,3) show ?thesis
    by (auto simp: RandomInt64_def word_sless_alt word_sle_eq Let_def)
next
  case False
  with assms(1) have "start = 0"
    by (simp add: int64_eq_iff_sint)
  with assms(3) show ?thesis
    using Int63n_range [of endv r]
    by (auto simp: RandomInt64_def word_sless_alt word_sle_eq)
qed

section \<open>A range below zero\<close>

lemma RandomInt64_below_zero:
  assumes "sint start < sint endv" and "sint endv < 0" and "sint start \<noteq> MinInt64"
  shows "RandomInt64 r start endv = Inr (endv - word_of_int (int r mod (- sint start)))"
proof -
  from assms have "sint (- start) = - sint start"
    by (simp add: sint_neg_int64)
  with assms have "Int63n r (- start) = Inr (word_of_int (int r mod (- sint start)))"
    by (simp add: Int63n_def word_sle_eq)
  with assms show ?thesis
    by (auto simp: RandomInt64_def word_sless_alt Let_def)
qed

section \<open>Theorems\<close>

text \<open>
  C19. For an exponent \<open>y \<ge> 2\<close> the loop of \<^verbatim>\<open>Pow\<close> squares \<open>x\<close> exactly
  \<open>y - 1\<close> times: the result is \<open>x\<close> to the power \<open>2 ^ (y - 1)\<close>, computed modulo
  \<open>2 ^ 64\<close>, and not \<open>x\<close> to the power \<open>y\<close> as the comment says.
\<close>

theorem Pow64_tower:
  assumes "2 \<le> sint y"
  shows "Pow64 x y = Inr (x ^ (2 ^ (nat (sint y) - 1)))"
proof -
  from assms have "\<not> y <s 0" and "y \<noteq> 0" and "y \<noteq> 1"
    by (auto simp: word_sless_alt)
  moreover from assms have "unat (y - 0 - 1) = nat (sint y) - 1"
    by (simp add: unat_pred_sint)
  ultimately show ?thesis
    by (simp add: Pow64_def pow_loop_closed)
qed

theorem Pow64_tower_witness: "2 \<le> sint (3 :: int64) \<and> Pow64 2 3 = Inr 16"
  using Pow64_tower [of 3 2] by simp

text \<open>
  \<^verbatim>\<open>Pow\<close> panics exactly for a negative exponent; for every other exponent the
  loop ends and a value is returned.
\<close>

theorem Pow64_panics_iff: "is_panic (Pow64 x y) \<longleftrightarrow> sint y < 0"
  by (simp add: Pow64_def is_panic_def word_sless_alt)

text \<open>
  \<^verbatim>\<open>Pow\<close> agrees with the power for the exponents 0, 1 and 2 only: the
  exponent 3 already gives the fourth power, and \<^verbatim>\<open>Pow(2, 7)\<close> is \<open>2 ^ 64\<close>, which is
  0 in an \<^verbatim>\<open>int64\<close>.
\<close>

theorem Pow64_small_exponent:
  "Pow64 x 0 = Inr 1 \<and> Pow64 x 1 = Inr x \<and> Pow64 x 2 = Inr (x * x) \<and>
   Pow64 x 3 = Inr (x ^ 4) \<and> Pow64 2 7 = Inr 0"
  by (simp add: Pow64_def pow_loop_closed word_sless_alt power2_eq_square)

text \<open>
  \<^verbatim>\<open>RandomInt64\<close> panics with its own message when \<open>start\<close> is greater than
  \<open>end\<close>, whatever the random source draws.
\<close>

theorem RandomInt64_rejects_inverted_range:
  assumes "sint endv < sint start"
  shows "RandomInt64 r start endv = Inl (Panic ''range invalid: start great than end'')"
  using assms by (simp add: RandomInt64_def word_sless_alt)

text \<open>
  C22. For a range that contains zero (\<open>start \<le> 0 \<le> end\<close>, \<open>start < end\<close>) and
  whose width fits an \<^verbatim>\<open>int64\<close>, \<^verbatim>\<open>RandomInt64\<close> returns a value \<open>v\<close> with
  \<open>start \<le> v < end\<close> for every draw of the random source.
\<close>

theorem RandomInt64_in_range:
  assumes "sint start \<le> 0" and "0 \<le> sint endv" and "sint start < sint endv"
    and "in_int64 (sint endv - sint start)"
  shows "\<exists>v. RandomInt64 r start endv = Inr v \<and> sint start \<le> sint v \<and> sint v < sint endv"
  using assms by (rule RandomInt64_straddles_zero)

text \<open>
  C23. For a range of negative numbers the result is \<open>end - k\<close> with \<open>k\<close> drawn from
  \<open>[0, - start)\<close>: the values lie in \<open>(start + end, end]\<close> and not in the documented
  \<open>[start, end)\<close>; \<open>end\<close> itself is returned for the draw 0, and values below
  \<open>start\<close> for large draws.
\<close>

theorem RandomInt64_negative_range:
  assumes "sint start < sint endv" and "sint endv < 0" and "sint start \<noteq> MinInt64"
  shows "RandomInt64 r start endv = Inr (endv - word_of_int (int r mod (- sint start)))"
  using assms by (rule RandomInt64_below_zero)

theorem RandomInt64_negative_range_witness:
  "sint (- 20 :: int64) < sint (- 10 :: int64) \<and> sint (- 10 :: int64) < 0 \<and>
   sint (- 20 :: int64) \<noteq> MinInt64 \<and>
   RandomInt64 19 (- 20) (- 10) = Inr (- 29) \<and> RandomInt64 0 (- 20) (- 10) = Inr (- 10)"
  using RandomInt64_negative_range [of "- 20" "- 10" 19]
    RandomInt64_negative_range [of "- 20" "- 10" 0]
  by simp

text \<open>
  C24. For a range of positive numbers \<^verbatim>\<open>RandomInt64\<close> does not consult the random
  source: it returns \<open>start\<close>, for every draw.
\<close>

theorem RandomInt64_positive_range_constant:
  assumes "0 < sint start" and "sint start < sint endv"
  shows "RandomInt64 r start endv = Inr start"
  using assms by (auto simp: RandomInt64_def word_sless_alt word_sle_eq)


text \<open>
  C25. A range that contains zero and is wider than the largest \<^verbatim>\<open>int64\<close> makes
  the width wrap to a non-positive number, and the call panics inside the random source
  with that library's message, not with the function's own.
\<close>

theorem RandomInt64_wide_range_panics:
  assumes "sint start < 0" and "0 \<le> sint endv" and "\<not> in_int64 (sint endv - sint start)"
  shows "RandomInt64 r start endv = Inl (Panic ''invalid argument to Int63n'')"
proof -
  have "- start + endv = word_of_int (sint endv - sint start)"
    by simp
  moreover from assms have "MaxInt64 < sint endv - sint start"
    and "sint endv - sint start < 18446744073709551616"
    using sint_int64_numeral_bounds [of start] sint_int64_numeral_bounds [of endv]
    by (simp_all add: in_int64_def)
  ultimately have "sint (- start + endv) \<le> 0"
    using sint_int64_wrap_high [of "sint endv - sint start"] by simp
  then have "Int63n r (- start + endv) = Inl (Panic ''invalid argument to Int63n'')"
    by (rule Int63n_panics)
  with assms(1,2) show ?thesis
    by (auto simp: RandomInt64_def word_sless_alt word_sle_eq Let_def)
qed

theorem RandomInt64_wide_range_panics_witness:
  "sint (- 9223372036854775808 :: int64) < 0 \<and> 0 \<le> sint (0 :: int64) \<and>
   \<not> in_int64 (sint (0 :: int64) - sint (- 9223372036854775808 :: int64)) \<and>
   RandomInt64 7 (- 9223372036854775808) 0 = Inl (Panic ''invalid argument to Int63n'')"
  using RandomInt64_wide_range_panics [of "- 9223372036854775808" 0 7]
  by (simp add: in_int64_def)

theorem RandomInt64_in_range_witness:
  "sint (- 10 :: int64) \<le> 0 \<and> 0 \<le> sint (20 :: int64) \<and> sint (- 10 :: int64) < sint (20 :: int64) \<and>
   in_int64 (sint (20 :: int64) - sint (- 10 :: int64)) \<and>
   (\<exists>v. RandomInt64 13 (- 10) 20 = Inr v \<and> sint (- 10 :: int64) \<le> sint v \<and> sint v < sint (20 :: int64))"
  using RandomInt64_in_range [of "- 10" 20 13] by (simp add: in_int64_def)

theorem RandomInt64_rejects_inverted_range_witness:
  "sint (1 :: int64) < sint (2 :: int64) \<and>
   RandomInt64 0 2 1 = Inl (Panic ''range invalid: start great than end'')"
  using RandomInt64_rejects_inverted_range [of 1 2 0] by simp

theorem RandomInt64_positive_range_constant_witness:
  "0 < sint (10 :: int64) \<and> sint (10 :: int64) < sint (20 :: int64) \<and>
   RandomInt64 3 10 20 = Inr 10"
  using RandomInt64_positive_range_constant [of 10 20 3] by simp

end
