(* ===== verification/Random_Float.thy ===== *)
theory Random_Float
  imports Complex_Main Number
begin

text \<open>
  \<^verbatim>\<open>RandomFloat64\<close> of \<^verbatim>\<open>src/utils/number.go\<close>: the guards on the range, the two loops
  that multiply the scale by ten until \<^verbatim>\<open>start\<close> and \<^verbatim>\<open>end\<close> times the scale are whole
  numbers, the call of \<^verbatim>\<open>RandomInt64\<close> on the scaled bounds, and the division of the drawn
  integer by the scale in decimal arithmetic.

  \<^item> The operations of \<^verbatim>\<open>float64\<close> that the code uses are an interface, the record
    \<open>float64\<close> over a type variable: product, \<^verbatim>\<open>>\<close> and \<^verbatim>\<open>==\<close>, the conversions
    from and to \<^verbatim>\<open>int64\<close>, and the chain of the decimal library that divides, truncates
    and converts back. The theorems hold for every implementation; what they need of
    it is a hypothesis (\<open>is_whole\<close>).
  \<^item> \<^verbatim>\<open>scale\<close> is a Go \<^verbatim>\<open>int\<close>, taken at 64 bits: \<^verbatim>\<open>scale *= 10\<close> wraps around, and
    after 64 multiplications the scale is 0.
  \<^item> The loops have no bound in the source. \<open>scale_loop\<close> is a partial function in the
    option monad: \<open>None\<close> is a loop that never ends, and so is \<open>None\<close> for \<open>scale_of\<close>
    (both loops, one after the other on the same variable) and for \<open>RandomFloat64\<close>.
    \<open>is_whole\<close> is the test that leaves a loop, \<open>scaled\<close> a bound multiplied by the
    scale and converted to \<^verbatim>\<open>int64\<close>, as passed to \<^verbatim>\<open>RandomInt64\<close>.
  \<^item> \<open>Decimal_Div\<close> is the division of the decimal library, which panics on a zero
    divisor.
  \<^item> \<open>exact\<close> is an implementation of the interface for closed examples: real numbers
    without rounding, and one value that is not a number.
\<close>

section \<open>The interface\<close>

record 'f float64 =
  fmul :: "'f \<Rightarrow> 'f \<Rightarrow> 'f"
  fgt :: "'f \<Rightarrow> 'f \<Rightarrow> bool"
  feq :: "'f \<Rightarrow> 'f \<Rightarrow> bool"
  of_int64 :: "int64 \<Rightarrow> 'f"
  to_int64 :: "'f \<Rightarrow> int64"
  decimal_quot :: "int64 \<Rightarrow> int64 \<Rightarrow> 32 word \<Rightarrow> 'f"

definition Decimal_Div :: "'f float64 \<Rightarrow> int64 \<Rightarrow> int64 \<Rightarrow> 32 word \<Rightarrow> 'f result" where
  "Decimal_Div F a b p =
     (if b = 0 then Inl (Panic ''decimal division by 0'') else Inr (decimal_quot F a b p))"

section \<open>\<^verbatim>\<open>RandomFloat64\<close>\<close>

definition is_whole :: "'f float64 \<Rightarrow> 'f \<Rightarrow> int64 \<Rightarrow> bool" where
  "is_whole F x scale =
     (let scaled = fmul F x (of_int64 F scale)
      in feq F scaled (of_int64 F (to_int64 F scaled)))"

partial_function (option) scale_loop :: "'f float64 \<Rightarrow> 'f \<Rightarrow> int64 \<Rightarrow> int64 option" where
  "scale_loop F x scale =
     (if is_whole F x scale then Some scale else scale_loop F x (scale * 10))"

declare scale_loop.simps [code]

definition scale_of :: "'f float64 \<Rightarrow> 'f \<Rightarrow> 'f \<Rightarrow> int64 option" where
  "scale_of F start endv =
     (case scale_loop F start 1 of
        None \<Rightarrow> None
      | Some scale \<Rightarrow> scale_loop F endv scale)"

definition scaled :: "'f float64 \<Rightarrow> 'f \<Rightarrow> int64 \<Rightarrow> int64" where
  "scaled F x scale = to_int64 F (fmul F x (of_int64 F scale))"

definition RandomFloat64 ::
  "'f float64 \<Rightarrow> nat \<Rightarrow> 'f \<Rightarrow> 'f \<Rightarrow> int64 \<Rightarrow> 'f result option" where
  "RandomFloat64 F r start endv precision =
     (if fgt F start endv then Some (Inl (Panic ''range invalid: start great than end''))
      else if feq F start endv then Some (Inr start)
      else
        (case scale_of F start endv of
           None \<Rightarrow> None
         | Some scale \<Rightarrow>
             (case RandomInt64 r (scaled F start scale) (scaled F endv scale) of
                Inl p \<Rightarrow> Some (Inl p)
              | Inr randInt64 \<Rightarrow> Some (Decimal_Div F randInt64 scale (ucast precision)))))"

section \<open>An exact implementation for examples\<close>

definition trunc :: "real \<Rightarrow> int" where
  "trunc q = (if 0 \<le> q then \<lfloor>q\<rfloor> else - \<lfloor>- q\<rfloor>)"

definition exact_to_int64 :: "real option \<Rightarrow> int64" where
  "exact_to_int64 a =
     (case a of
        None \<Rightarrow> word_of_int MinInt64
      | Some x \<Rightarrow> if in_int64 (trunc x) then word_of_int (trunc x) else word_of_int MinInt64)"

definition exact_quot :: "int64 \<Rightarrow> int64 \<Rightarrow> 32 word \<Rightarrow> real option" where
  "exact_quot a b p =
     (let q = of_int (sint a) / of_int (sint b)
      in if p <s 0 then Some q else Some (of_int (trunc (q * 10 ^ unat p)) / 10 ^ unat p))"

definition exact :: "real option float64" where
  "exact = \<lparr>
     fmul = (\<lambda>a b. case (a, b) of (Some x, Some y) \<Rightarrow> Some (x * y) | _ \<Rightarrow> None),
     fgt = (\<lambda>a b. case (a, b) of (Some x, Some y) \<Rightarrow> y < x | _ \<Rightarrow> False),
     feq = (\<lambda>a b. case (a, b) of (Some x, Some y) \<Rightarrow> x = y | _ \<Rightarrow> False),
     of_int64 = (\<lambda>i. Some (of_int (sint i))),
     to_int64 = exact_to_int64,
     decimal_quot = exact_quot\<rparr>"

section \<open>The loops\<close>

lemma scale_loop_whole: "is_whole F x s \<Longrightarrow> scale_loop F x s = Some s"
  by (subst scale_loop.simps) simp

lemma scale_loop_step: "\<not> is_whole F x s \<Longrightarrow> scale_loop F x s = scale_loop F x (s * 10)"
  by (subst scale_loop.simps) simp

lemma scale_loop_first:
  assumes "is_whole F x (s * 10 ^ k)" and "\<forall>j<k. \<not> is_whole F x (s * 10 ^ j)"
  shows "scale_loop F x s = Some (s * 10 ^ k)"
  using assms
proof (induction k arbitrary: s)
  case 0
  then show ?case by (simp add: scale_loop_whole)
next
  case (Suc k)
  from Suc.prems(2) have "\<not> is_whole F x s"
    by (auto dest: spec [of _ 0])
  moreover have "scale_loop F x (s * 10) = Some (s * 10 * 10 ^ k)"
  proof (rule Suc.IH)
    from Suc.prems(1) show "is_whole F x (s * 10 * 10 ^ k)"
      by (simp add: mult.assoc)
    from Suc.prems(2) show "\<forall>j<k. \<not> is_whole F x (s * 10 * 10 ^ j)"
      by (auto simp: mult.assoc dest: spec [of _ "Suc _"])
  qed
  ultimately show ?case
    by (simp add: scale_loop_step mult.assoc)
qed

lemmas scale_loop_induct =
  scale_loop.raw_induct [where xa = "((F, x), s)" and y = y, simplified] for F x s y

lemma scale_loop_SomeD:
  assumes ret: "scale_loop F x s = Some y"
  shows "\<exists>k. y = s * 10 ^ k \<and> is_whole F x y \<and> (\<forall>j<k. \<not> is_whole F x (s * 10 ^ j))"
proof (rule scale_loop_induct [where P = "\<lambda>F x s y.
         \<exists>k. y = s * 10 ^ k \<and> is_whole F x y \<and> (\<forall>j<k. \<not> is_whole F x (s * 10 ^ j))", OF _ ret])
  fix f F x s y
  assume IH: "\<And>F x s y. f F x s = Some y \<Longrightarrow>
      \<exists>k. y = s * 10 ^ k \<and> is_whole F x y \<and> (\<forall>j<k. \<not> is_whole F x (s * 10 ^ j))"
    and eq: "(if is_whole F x s then Some s else f F x (s * 10)) = Some y"
  show "\<exists>k. y = s * 10 ^ k \<and> is_whole F x y \<and> (\<forall>j<k. \<not> is_whole F x (s * 10 ^ j))"
  proof (cases "is_whole F x s")
    case True
    with eq show ?thesis
      by (intro exI [of _ 0]) simp
  next
    case False
    with eq have "f F x (s * 10) = Some y"
      by simp
    then obtain k where k: "y = s * 10 * 10 ^ k" "is_whole F x y"
      "\<forall>j<k. \<not> is_whole F x (s * 10 * 10 ^ j)"
      using IH by blast
    from k(3) False have "\<forall>j<Suc k. \<not> is_whole F x (s * 10 ^ j)"
      by (auto simp: less_Suc_eq_0_disj mult.assoc)
    with k(1,2) show ?thesis
      by (intro exI [of _ "Suc k"]) (simp add: mult.assoc)
  qed
qed

lemma scale_loop_Some_iff:
  "scale_loop F x s = Some y \<longleftrightarrow>
     (\<exists>k. y = s * 10 ^ k \<and> is_whole F x y \<and> (\<forall>j<k. \<not> is_whole F x (s * 10 ^ j)))"
  by (auto dest: scale_loop_SomeD simp: scale_loop_first)

lemma scale_loop_least:
  assumes "is_whole F x (s * 10 ^ n)"
  shows "\<exists>k\<le>n. scale_loop F x s = Some (s * 10 ^ k)"
proof -
  define k where "k = (LEAST k. is_whole F x (s * 10 ^ k))"
  from assms have "is_whole F x (s * 10 ^ k)" and "k \<le> n"
    unfolding k_def by (rule LeastI, rule Least_le)
  moreover have "\<forall>j<k. \<not> is_whole F x (s * 10 ^ j)"
    unfolding k_def by (auto dest: not_less_Least)
  ultimately show ?thesis
    by (auto simp: scale_loop_first)
qed

lemma scale_loop_None_iff:
  "scale_loop F x s = None \<longleftrightarrow> (\<forall>k. \<not> is_whole F x (s * 10 ^ k))"
proof
  assume "scale_loop F x s = None"
  then show "\<forall>k. \<not> is_whole F x (s * 10 ^ k)"
    using scale_loop_least [of F x s] by fastforce
next
  assume "\<forall>k. \<not> is_whole F x (s * 10 ^ k)"
  then show "scale_loop F x s = None"
    using scale_loop_SomeD [of F x s] by (cases "scale_loop F x s") auto
qed

section \<open>The scale in 64 bits\<close>

lemma ten_power_64 [simp]: "(10 :: int64) ^ 64 = 0"
  by simp

lemma ten_power_nonzero:
  assumes "k < 64"
  shows "(10 :: int64) ^ k \<noteq> 0"
proof
  assume "(10 :: int64) ^ k = 0"
  then have "(2 :: int) ^ 64 dvd 10 ^ k"
    using word_of_int_eq_0_iff [where ?'a = 64, of "10 ^ k"] by simp
  moreover have "(10 :: int) ^ k = 5 ^ k * 2 ^ k"
    by (simp flip: power_mult_distrib)
  moreover from assms have "(2 :: int) ^ 64 = 2 ^ (64 - k) * 2 ^ k"
    by (simp only: flip: power_add) simp
  ultimately have "(2 :: int) ^ (64 - k) * 2 ^ k dvd 5 ^ k * 2 ^ k"
    by (simp only:)
  then have "(2 :: int) ^ (64 - k) dvd 5 ^ k"
    by simp
  moreover from assms have "(2 :: int) dvd 2 ^ (64 - k)"
    by simp
  ultimately have "(2 :: int) dvd 5 ^ k"
    by (rule dvd_trans [rotated])
  then show False
    by simp
qed

lemma scale_loop_returns:
  assumes "is_whole F x 0"
  shows "\<exists>k\<le>64. scale_loop F x s = Some (s * 10 ^ k)"
  using assms by (intro scale_loop_least) (simp only: ten_power_64 mult_zero_right)

lemma scale_of_returns:
  assumes "is_whole F start 0" and "is_whole F endv 0"
  shows "\<exists>s. scale_of F start endv = Some s"
proof -
  from assms(1) obtain s1 where "scale_loop F start 1 = Some s1"
    using scale_loop_returns [of F start 1] by auto
  moreover from assms(2) obtain s where "scale_loop F endv s1 = Some s"
    using scale_loop_returns [of F endv s1] by auto
  ultimately show ?thesis
    by (simp add: scale_of_def)
qed

lemma scale_of_never:
  assumes "(\<forall>s. \<not> is_whole F start s) \<or> (\<forall>s. \<not> is_whole F endv s)"
  shows "scale_of F start endv = None"
  using assms
  by (auto simp: scale_of_def scale_loop_None_iff dest: scale_loop_SomeD split: option.splits)

lemma scale_of_zero:
  assumes "\<forall>k<64. \<not> is_whole F start (10 ^ k)" and "is_whole F start 0" and "is_whole F endv 0"
  shows "scale_of F start endv = Some 0"
proof -
  from assms(1,2) have "scale_loop F start 1 = Some (1 * 10 ^ 64)"
    by (intro scale_loop_first) (simp_all only: ten_power_64 mult_zero_right mult_1)
  with assms(3) show ?thesis
    by (simp only: scale_of_def ten_power_64 mult_zero_right option.case scale_loop_whole)
qed

section \<open>The function\<close>

lemma RandomFloat64_guards:
  "fgt F start endv \<Longrightarrow>
     RandomFloat64 F r start endv p = Some (Inl (Panic ''range invalid: start great than end''))"
  "\<not> fgt F start endv \<Longrightarrow> feq F start endv \<Longrightarrow> RandomFloat64 F r start endv p = Some (Inr start)"
  by (simp_all add: RandomFloat64_def)

lemma RandomFloat64_scaled:
  assumes "\<not> fgt F start endv" and "\<not> feq F start endv" and "scale_of F start endv = Some s"
  shows "RandomFloat64 F r start endv p =
     (case RandomInt64 r (scaled F start s) (scaled F endv s) of
        Inl e \<Rightarrow> Some (Inl e)
      | Inr v \<Rightarrow> Some (Decimal_Div F v s (ucast p)))"
  using assms by (simp add: RandomFloat64_def)

lemma RandomFloat64_negative_range:
  assumes "\<not> fgt F start endv" and "\<not> feq F start endv"
    and "scale_of F start endv = Some s"
    and "sint (scaled F start s) < sint (scaled F endv s)" and "sint (scaled F endv s) < 0"
    and "sint (scaled F start s) \<noteq> MinInt64"
  shows "RandomFloat64 F r start endv p =
     Some (Decimal_Div F
       (scaled F endv s - word_of_int (int r mod (- sint (scaled F start s)))) s (ucast p))"
  using assms RandomInt64_below_zero [of "scaled F start s" "scaled F endv s" r]
  by (simp add: RandomFloat64_scaled)

lemma RandomFloat64_None_iff:
  "RandomFloat64 F r start endv p = None \<longleftrightarrow>
     \<not> fgt F start endv \<and> \<not> feq F start endv \<and> scale_of F start endv = None"
  by (simp add: RandomFloat64_def split: option.splits sum.splits)

section \<open>The exact implementation\<close>

lemma exact_simps [simp]:
  "fmul exact (Some x) (Some y) = Some (x * y)"
  "fmul exact None b = None"
  "fgt exact (Some x) (Some y) \<longleftrightarrow> y < x"
  "fgt exact None b = False"
  "feq exact (Some x) (Some y) \<longleftrightarrow> x = y"
  "feq exact None b = False"
  "of_int64 exact i = Some (of_int (sint i))"
  "to_int64 exact = exact_to_int64"
  "decimal_quot exact = exact_quot"
  by (simp_all add: exact_def)

lemma trunc_of_int [simp]: "trunc (of_int k) = k"
  by (simp add: trunc_def)

lemma is_whole_exact:
  "is_whole exact (Some q) s \<longleftrightarrow>
     q * of_int (sint s) = of_int (trunc (q * of_int (sint s))) \<and>
     in_int64 (trunc (q * of_int (sint s)))"
proof (cases "in_int64 (trunc (q * of_int (sint s)))")
  case True
  then show ?thesis
    by (simp add: is_whole_def exact_to_int64_def sint_int64 del: of_int_sint)
next
  case False
  have "q * of_int (sint s) \<noteq> of_int MinInt64"
  proof
    assume "q * of_int (sint s) = of_int MinInt64"
    then have "trunc (q * of_int (sint s)) = MinInt64"
      by (simp only: trunc_of_int)
    with False show False
      by (simp add: in_int64_def)
  qed
  with False show ?thesis
    by (simp add: is_whole_def exact_to_int64_def sint_int64 in_int64_def del: of_int_sint)
qed

lemma is_whole_exact_None [simp]: "\<not> is_whole exact None s"
  by (simp add: is_whole_def)

lemma scaled_exact:
  "in_int64 (trunc (q * of_int (sint s))) \<Longrightarrow>
     scaled exact (Some q) s = word_of_int (trunc (q * of_int (sint s)))"
  by (simp add: scaled_def exact_to_int64_def del: of_int_sint)

lemmas exact_eval =
  scale_of_def scale_loop_whole scale_loop_step is_whole_exact scaled_exact trunc_def in_int64_def
  exact_quot_def Decimal_Div_def word_sless_alt Let_def

lemma trunc_small: "\<bar>z\<bar> < 1 \<Longrightarrow> trunc z = 0"
  by (auto simp: trunc_def floor_eq_iff)

lemma tiny_never_whole:
  assumes "0 < q" and "q * 9223372036854775808 < 1" and "s \<noteq> 0"
  shows "\<not> is_whole exact (Some q) s"
proof -
  define z where "z = real_of_int (sint s)"
  from assms(3) have nz: "z \<noteq> 0"
    by (simp add: z_def int64_eq_iff_sint del: of_int_sint)
  have "\<bar>sint s\<bar> \<le> 9223372036854775808"
    using sint_int64_numeral_bounds [of s] by simp
  then have "real_of_int \<bar>sint s\<bar> \<le> real_of_int 9223372036854775808"
    by (simp only: of_int_le_iff)
  then have "\<bar>z\<bar> \<le> 9223372036854775808"
    by (simp add: z_def del: of_int_sint)
  with assms(1) have "q * \<bar>z\<bar> \<le> q * 9223372036854775808"
    by (intro mult_left_mono) simp_all
  also note assms(2)
  finally have "q * \<bar>z\<bar> < 1" .
  with assms(1) have "\<bar>q * z\<bar> < 1"
    by (simp add: abs_mult)
  then have "trunc (q * z) = 0"
    by (rule trunc_small)
  with assms(1) nz show ?thesis
    by (simp add: is_whole_exact flip: z_def del: of_int_sint)
qed

section \<open>Theorems\<close>

text \<open>
  C20. \<^verbatim>\<open>RandomFloat64\<close> returns or panics, and does not run forever, for all bounds
  whose product with the scale 0 is a whole number (every finite \<^verbatim>\<open>float64\<close>): the
  scale wraps to 0 after 64 multiplications by ten, so each loop ends within 64
  iterations.
\<close>

theorem RandomFloat64_returns:
  assumes "is_whole F start 0" and "is_whole F endv 0"
  shows "\<exists>res. RandomFloat64 F r start endv p = Some res"
proof (cases "fgt F start endv \<or> feq F start endv")
  case True
  then show ?thesis
    by (cases "fgt F start endv") (auto simp: RandomFloat64_guards)
next
  case False
  from assms obtain s where "scale_of F start endv = Some s"
    using scale_of_returns [of F start endv] by auto
  with False show ?thesis
    by (cases "RandomInt64 r (scaled F start s) (scaled F endv s)")
       (simp_all add: RandomFloat64_scaled)
qed

theorem RandomFloat64_returns_witness:
  "is_whole exact (Some (101 / 10)) 0 \<and> is_whole exact (Some (101 / 5)) 0 \<and>
   (\<exists>res. RandomFloat64 exact 7 (Some (101 / 10)) (Some (101 / 5)) 2 = Some res)"
  using RandomFloat64_returns [of exact "Some (101 / 10)" "Some (101 / 5)" 7 2]
  by (simp add: exact_eval)

text \<open>
  C21. \<^verbatim>\<open>RandomFloat64\<close> never returns when one bound is not a whole number at any
  scale and the guards let it pass, as for a bound that is not a number: the loop of that
  bound has no exit.
\<close>

theorem RandomFloat64_never_returns:
  assumes "\<not> fgt F start endv" and "\<not> feq F start endv"
    and "(\<forall>s. \<not> is_whole F start s) \<or> (\<forall>s. \<not> is_whole F endv s)"
  shows "RandomFloat64 F r start endv p = None"
  using assms by (simp add: RandomFloat64_None_iff scale_of_never)

theorem RandomFloat64_never_returns_witness:
  "\<not> fgt exact None (Some 1) \<and> \<not> feq exact None (Some 1) \<and> (\<forall>s. \<not> is_whole exact None s) \<and>
   RandomFloat64 exact 0 None (Some 1) 2 = None"
  using RandomFloat64_never_returns [of exact None "Some 1" 0 2]
  by simp

text \<open>
  C26. For a range around zero \<^verbatim>\<open>RandomFloat64\<close> returns the decimal quotient of an
  integer \<open>v\<close> by the scale, where \<open>v\<close> lies between the scaled bounds
  (\<open>start * scale \<le> v < end * scale\<close>), provided the scale has not wrapped to 0 and the
  width of the scaled range fits an \<^verbatim>\<open>int64\<close>.
\<close>

theorem RandomFloat64_in_range:
  assumes "\<not> fgt F start endv" and "\<not> feq F start endv"
    and "scale_of F start endv = Some s" and "s \<noteq> 0"
    and "sint (scaled F start s) \<le> 0" and "0 \<le> sint (scaled F endv s)"
    and "sint (scaled F start s) < sint (scaled F endv s)"
    and "in_int64 (sint (scaled F endv s) - sint (scaled F start s))"
  shows "\<exists>v. RandomFloat64 F r start endv p = Some (Inr (decimal_quot F v s (ucast p))) \<and>
             sint (scaled F start s) \<le> sint v \<and> sint v < sint (scaled F endv s)"
proof -
  from assms(5-8) obtain v where "RandomInt64 r (scaled F start s) (scaled F endv s) = Inr v"
    and "sint (scaled F start s) \<le> sint v" and "sint v < sint (scaled F endv s)"
    using RandomInt64_straddles_zero by blast
  with assms(1-4) show ?thesis
    by (auto simp: RandomFloat64_scaled Decimal_Div_def)
qed

theorem RandomFloat64_in_range_witness:
  "\<not> fgt exact (Some (- (101 / 10))) (Some (101 / 5)) \<and>
   \<not> feq exact (Some (- (101 / 10))) (Some (101 / 5)) \<and>
   scale_of exact (Some (- (101 / 10))) (Some (101 / 5)) = Some 10 \<and> (10 :: int64) \<noteq> 0 \<and>
   scaled exact (Some (- (101 / 10))) 10 = - 101 \<and> scaled exact (Some (101 / 5)) 10 = 202 \<and>
   in_int64 (sint (202 :: int64) - sint (- 101 :: int64)) \<and>
   (\<exists>v. RandomFloat64 exact 29 (Some (- (101 / 10))) (Some (101 / 5)) 3 =
          Some (Inr (decimal_quot exact v 10 3)) \<and> - 101 \<le> sint v \<and> sint v < 202)"
  using RandomFloat64_in_range [of exact "Some (- (101 / 10))" "Some (101 / 5)" 10 29 3]
  by (simp add: exact_eval)

text \<open>
  C27. For a range of positive numbers \<^verbatim>\<open>RandomFloat64\<close> does not consult the random
  source: it returns the scaled \<open>start\<close> divided by the scale for every draw, so
  \<^verbatim>\<open>RandomFloat64(10.10, 20.20, 2)\<close> is always 10.1 and never the 16.22 of the comment.
\<close>

theorem RandomFloat64_positive_range_constant:
  assumes "\<not> fgt F start endv" and "\<not> feq F start endv"
    and "scale_of F start endv = Some s"
    and "0 < sint (scaled F start s)" and "sint (scaled F start s) < sint (scaled F endv s)"
  shows "RandomFloat64 F r start endv p = Some (Decimal_Div F (scaled F start s) s (ucast p))"
proof -
  from assms(4,5) have "RandomInt64 r (scaled F start s) (scaled F endv s) = Inr (scaled F start s)"
    by (auto simp: RandomInt64_def word_sless_alt word_sle_eq)
  with assms(1-3) show ?thesis
    by (simp add: RandomFloat64_scaled)
qed

theorem RandomFloat64_positive_range_constant_witness:
  "\<not> fgt exact (Some (101 / 10)) (Some (101 / 5)) \<and>
   \<not> feq exact (Some (101 / 10)) (Some (101 / 5)) \<and>
   scale_of exact (Some (101 / 10)) (Some (101 / 5)) = Some 10 \<and>
   scaled exact (Some (101 / 10)) 10 = 101 \<and> scaled exact (Some (101 / 5)) 10 = 202 \<and>
   RandomFloat64 exact 77 (Some (101 / 10)) (Some (101 / 5)) 2 = Some (Inr (Some (101 / 10)))"
  using RandomFloat64_positive_range_constant [of exact "Some (101 / 10)" "Some (101 / 5)" 10 77 2]
  by (simp add: exact_eval)

text \<open>
  C28. When no product of \<open>start\<close> and a power of ten below \<open>10 ^ 64\<close> is a whole
  number, the scale reaches 0 and \<^verbatim>\<open>RandomFloat64\<close> panics (in the decimal division by
  the scale, or before it in \<^verbatim>\<open>RandomInt64\<close>): so it does for a bound as small as
  \<open>1e-30\<close>.
\<close>

theorem RandomFloat64_zero_scale_panics:
  assumes "\<not> fgt F start endv" and "\<not> feq F start endv"
    and "list_all (\<lambda>k. \<not> is_whole F start (10 ^ k)) [0..<64]"
    and "is_whole F start 0" and "is_whole F endv 0"
  shows "\<exists>m. RandomFloat64 F r start endv p = Some (Inl (Panic m))"
proof -
  from assms(3-5) have zero: "scale_of F start endv = Some 0"
    by (intro scale_of_zero) (simp_all add: list_all_iff)
  show ?thesis
  proof (cases "RandomInt64 r (scaled F start 0) (scaled F endv 0)")
    case (Inl e)
    obtain m where "e = Panic m"
      by (cases e)
    with Inl zero assms(1,2) show ?thesis
      by (simp add: RandomFloat64_scaled)
  next
    case (Inr v)
    with zero assms(1,2) show ?thesis
      by (simp add: RandomFloat64_scaled Decimal_Div_def)
  qed
qed

theorem RandomFloat64_zero_scale_panics_witness:
  "\<not> fgt exact (Some (1 / 10 ^ 30)) (Some 1) \<and> \<not> feq exact (Some (1 / 10 ^ 30)) (Some 1) \<and>
   list_all (\<lambda>k. \<not> is_whole exact (Some (1 / 10 ^ 30)) (10 ^ k)) [0..<64] \<and>
   is_whole exact (Some (1 / 10 ^ 30)) 0 \<and> is_whole exact (Some 1) 0 \<and>
   (\<exists>m. RandomFloat64 exact 5 (Some (1 / 10 ^ 30)) (Some 1) 2 = Some (Inl (Panic m)))"
proof -
  have guards: "\<not> fgt exact (Some (1 / 10 ^ 30)) (Some 1)" "\<not> feq exact (Some (1 / 10 ^ 30)) (Some 1)"
    by simp_all
  have tiny: "list_all (\<lambda>k. \<not> is_whole exact (Some (1 / 10 ^ 30)) (10 ^ k)) [0..<64]"
    by (simp add: list_all_iff tiny_never_whole ten_power_nonzero)
  have zero: "is_whole exact (Some (1 / 10 ^ 30)) 0" "is_whole exact (Some 1) 0"
    by (simp_all add: is_whole_exact trunc_def in_int64_def)
  from RandomFloat64_zero_scale_panics [OF guards tiny zero, of 5 2] guards tiny zero
  show ?thesis
    by (intro conjI)
qed

end
