(* ===== verification/Claims.thy ===== *)
theory Claims
  imports Prelude
begin

text \<open>
  Validation of JWT claims, \<^verbatim>\<open>src/lib/jwt/claims.go\<close>.

  \<^verbatim>\<open>MapClaims\<close> is a map from claim names to dynamically typed values;
  \<^verbatim>\<open>(*MapClaims).Valid\<close> copies seven registered claims into a fresh
  \<^verbatim>\<open>StandardClaims\<close> of the JWT library, one \<^verbatim>\<open>if\<close> block per claim, and returns
  what the library's \<^verbatim>\<open>StandardClaims.Valid\<close> says of the copy. Each block is one
  definition here (\<open>set_aud\<close> to \<open>set_sub\<close>), composed by \<open>standardClaim\<close> in the order
  of the source.

  \<^item> A value is \<open>Str s\<close> when its dynamic type is \<^verbatim>\<open>string\<close> (the type assertion
    \<^verbatim>\<open>value.(string)\<close> succeeds) and \<open>Dyn x\<close> otherwise.
  \<^item> The conversions of the three time claims go through \<^verbatim>\<open>fmt.Sprintf\<close>,
    \<^verbatim>\<open>strconv.ParseFloat\<close> and the conversion \<^verbatim>\<open>int64(f)\<close>. They are an
    interface, the record \<open>conv\<close>, and the theorems hold for every implementation of it.
  \<^item> The pointer receiver is an \<open>option\<close>: \<open>None\<close> is \<^verbatim>\<open>nil\<close>. The returned
    \<^verbatim>\<open>error\<close> is an \<open>error option\<close>: \<open>None\<close> is \<^verbatim>\<open>nil\<close>.
  \<^item> \<open>StandardClaims_Valid\<close> follows the documented contract of the library: the
    current time is compared with \<^verbatim>\<open>exp\<close>, \<^verbatim>\<open>iat\<close> and \<^verbatim>\<open>nbf\<close>, a zero field
    is not checked, and each failed check sets one bit of the error's mask. The
    message of the error is not modelled.
\<close>

section \<open>Data\<close>

datatype 'a any = Str string | Dyn 'a

type_synonym 'a MapClaims = "string \<rightharpoonup> 'a any"

record ('a, 'f) conv =
  Sprintf :: "'a any \<Rightarrow> string"
  ParseFloat :: "string \<Rightarrow> 'f option"
  int64_of :: "'f \<Rightarrow> int64"

record StandardClaims =
  Audience :: string
  ExpiresAt :: int64
  Id' :: string
  IssuedAt :: int64
  Issuer :: string
  NotBefore :: int64
  Subject :: string

record AppClaims = StandardClaims +
  Scopes :: "string list"
  ScopeIDs :: "int64 list"
  Name :: string
  Email :: string

datatype error = Errorf string | ValidationError "32 word"

section \<open>The library's check of the standard claims\<close>

definition StandardClaims_Valid :: "int64 \<Rightarrow> 'z StandardClaims_scheme \<Rightarrow> error option" where
  "StandardClaims_Valid now c =
     (let e1 = (if ExpiresAt c = 0 \<or> now \<le>s ExpiresAt c then 0 else push_bit 4 1);
          e2 = (if IssuedAt c = 0 \<or> IssuedAt c \<le>s now then e1 else e1 OR push_bit 5 1);
          e3 = (if NotBefore c = 0 \<or> NotBefore c \<le>s now then e2 else e2 OR push_bit 7 1)
      in if e3 = 0 then None else Some (ValidationError e3))"

section \<open>\<^verbatim>\<open>Valid\<close>, block by block\<close>

definition zero_claims :: StandardClaims where
  "zero_claims = \<lparr>Audience = [], ExpiresAt = 0, Id' = [], IssuedAt = 0, Issuer = [],
     NotBefore = 0, Subject = []\<rparr>"

definition set_aud :: "'a MapClaims \<Rightarrow> StandardClaims \<Rightarrow> StandardClaims" where
  "set_aud c sc = (case c ''aud'' of None \<Rightarrow> sc | Some v \<Rightarrow>
     (case v of Str aud \<Rightarrow> sc\<lparr>Audience := aud\<rparr> | Dyn _ \<Rightarrow> sc))"

definition set_exp :: "('a, 'f) conv \<Rightarrow> 'a MapClaims \<Rightarrow> StandardClaims \<Rightarrow> StandardClaims" where
  "set_exp L c sc = (case c ''exp'' of None \<Rightarrow> sc | Some v \<Rightarrow>
     (let valueStr = Sprintf L v in
      case ParseFloat L valueStr of None \<Rightarrow> sc
      | Some e \<Rightarrow> sc\<lparr>ExpiresAt := int64_of L e\<rparr>))"

definition set_jti :: "'a MapClaims \<Rightarrow> StandardClaims \<Rightarrow> StandardClaims" where
  "set_jti c sc = (case c ''jti'' of None \<Rightarrow> sc | Some v \<Rightarrow>
     (case v of Str jti \<Rightarrow> sc\<lparr>Id' := jti\<rparr> | Dyn _ \<Rightarrow> sc))"

definition set_iat :: "('a, 'f) conv \<Rightarrow> 'a MapClaims \<Rightarrow> StandardClaims \<Rightarrow> StandardClaims" where
  "set_iat L c sc = (case c ''iat'' of None \<Rightarrow> sc | Some v \<Rightarrow>
     (let valueStr = Sprintf L v in
      case ParseFloat L valueStr of None \<Rightarrow> sc
      | Some iat \<Rightarrow> sc\<lparr>IssuedAt := int64_of L iat\<rparr>))"

definition set_iss :: "'a MapClaims \<Rightarrow> StandardClaims \<Rightarrow> StandardClaims" where
  "set_iss c sc = (case c ''iss'' of None \<Rightarrow> sc | Some v \<Rightarrow>
     (case v of Str iss \<Rightarrow> sc\<lparr>Issuer := iss\<rparr> | Dyn _ \<Rightarrow> sc))"

definition set_nbf :: "('a, 'f) conv \<Rightarrow> 'a MapClaims \<Rightarrow> StandardClaims \<Rightarrow> StandardClaims" where
  "set_nbf L c sc = (case c ''nbf'' of None \<Rightarrow> sc | Some v \<Rightarrow>
     (let valueStr = Sprintf L v in
      case ParseFloat L valueStr of None \<Rightarrow> sc
      | Some nbf \<Rightarrow> sc\<lparr>NotBefore := int64_of L nbf\<rparr>))"

definition set_sub :: "'a MapClaims \<Rightarrow> StandardClaims \<Rightarrow> StandardClaims" where
  "set_sub c sc = (case c ''sub'' of None \<Rightarrow> sc | Some v \<Rightarrow>
     (case v of Str sub \<Rightarrow> sc\<lparr>Id' := sub\<rparr> | Dyn _ \<Rightarrow> sc))"

definition standardClaim :: "('a, 'f) conv \<Rightarrow> 'a MapClaims \<Rightarrow> StandardClaims" where
  "standardClaim L c =
     set_sub c (set_nbf L c (set_iss c (set_iat L c (set_jti c (set_exp L c
       (set_aud c zero_claims))))))"

definition Valid :: "('a, 'f) conv \<Rightarrow> int64 \<Rightarrow> 'a MapClaims option \<Rightarrow> error option" where
  "Valid L now c = (case c of None \<Rightarrow> Some (Errorf ''MapClaims is nil'')
     | Some m \<Rightarrow> StandardClaims_Valid now (standardClaim L m))"

section \<open>What the claims mean\<close>

text \<open>
  The reference reading: a string claim is the string stored under the name, if there is
  an entry and it is a string; a time claim is the number the conversions yield, zero if
  there is no entry or it does not parse.
\<close>

definition string_claim :: "'a MapClaims \<Rightarrow> string \<Rightarrow> string option" where
  "string_claim c k = (case c k of Some (Str s) \<Rightarrow> Some s | _ \<Rightarrow> None)"

definition parsed_claim :: "('a, 'f) conv \<Rightarrow> 'a MapClaims \<Rightarrow> string \<Rightarrow> int64 option" where
  "parsed_claim L c k = (case c k of None \<Rightarrow> None | Some v \<Rightarrow>
     map_option (int64_of L) (ParseFloat L (Sprintf L v)))"

definition time_claim :: "('a, 'f) conv \<Rightarrow> 'a MapClaims \<Rightarrow> string \<Rightarrow> int64" where
  "time_claim L c k = (case parsed_claim L c k of None \<Rightarrow> 0 | Some n \<Rightarrow> n)"

definition expired :: "int64 \<Rightarrow> int64 \<Rightarrow> bool" where
  "expired now e \<longleftrightarrow> e \<noteq> 0 \<and> e <s now"

definition premature :: "int64 \<Rightarrow> int64 \<Rightarrow> bool" where
  "premature now t \<longleftrightarrow> t \<noteq> 0 \<and> now <s t"

definition error_mask :: "bool \<Rightarrow> bool \<Rightarrow> bool \<Rightarrow> 32 word" where
  "error_mask x i n = (if x then 16 else 0) + (if i then 32 else 0) + (if n then 128 else 0)"

text \<open>A conversion library for closed examples: decimal digits parse, nothing else does.\<close>

definition digits :: "string \<Rightarrow> nat option" where
  "digits s = (if s \<noteq> [] \<and> list_all (\<lambda>ch. 48 \<le> (of_char ch :: nat) \<and> (of_char ch :: nat) \<le> 57) s
     then Some (foldl (\<lambda>n ch. 10 * n + (of_char ch - 48)) 0 s) else None)"

definition demo_conv :: "(string, nat) conv" where
  "demo_conv = \<lparr>Sprintf = (\<lambda>v. case v of Str s \<Rightarrow> s | Dyn s \<Rightarrow> s), ParseFloat = digits,
     int64_of = of_nat\<rparr>"

section \<open>The fields of the copy\<close>

lemmas setter_defs = set_aud_def set_exp_def set_jti_def set_iat_def set_iss_def set_nbf_def
  set_sub_def

lemma set_aud_fields [simp]:
  "Audience (set_aud c sc) = (case string_claim c ''aud'' of None \<Rightarrow> Audience sc | Some s \<Rightarrow> s)"
  "ExpiresAt (set_aud c sc) = ExpiresAt sc" "Id' (set_aud c sc) = Id' sc"
  "IssuedAt (set_aud c sc) = IssuedAt sc" "Issuer (set_aud c sc) = Issuer sc"
  "NotBefore (set_aud c sc) = NotBefore sc" "Subject (set_aud c sc) = Subject sc"
  by (simp_all add: set_aud_def string_claim_def split: option.splits any.splits)

lemma set_exp_fields [simp]:
  "Audience (set_exp L c sc) = Audience sc"
  "ExpiresAt (set_exp L c sc) = (case parsed_claim L c ''exp'' of None \<Rightarrow> ExpiresAt sc | Some n \<Rightarrow> n)"
  "Id' (set_exp L c sc) = Id' sc"
  "IssuedAt (set_exp L c sc) = IssuedAt sc" "Issuer (set_exp L c sc) = Issuer sc"
  "NotBefore (set_exp L c sc) = NotBefore sc" "Subject (set_exp L c sc) = Subject sc"
  by (simp_all add: set_exp_def parsed_claim_def split: option.splits)

lemma set_jti_fields [simp]:
  "Audience (set_jti c sc) = Audience sc"
  "ExpiresAt (set_jti c sc) = ExpiresAt sc"
  "Id' (set_jti c sc) = (case string_claim c ''jti'' of None \<Rightarrow> Id' sc | Some s \<Rightarrow> s)"
  "IssuedAt (set_jti c sc) = IssuedAt sc" "Issuer (set_jti c sc) = Issuer sc"
  "NotBefore (set_jti c sc) = NotBefore sc" "Subject (set_jti c sc) = Subject sc"
  by (simp_all add: set_jti_def string_claim_def split: option.splits any.splits)

lemma set_iat_fields [simp]:
  "Audience (set_iat L c sc) = Audience sc"
  "ExpiresAt (set_iat L c sc) = ExpiresAt sc"
  "Id' (set_iat L c sc) = Id' sc"
  "IssuedAt (set_iat L c sc) = (case parsed_claim L c ''iat'' of None \<Rightarrow> IssuedAt sc | Some n \<Rightarrow> n)"
  "Issuer (set_iat L c sc) = Issuer sc"
  "NotBefore (set_iat L c sc) = NotBefore sc" "Subject (set_iat L c sc) = Subject sc"
  by (simp_all add: set_iat_def parsed_claim_def split: option.splits)

lemma set_iss_fields [simp]:
  "Audience (set_iss c sc) = Audience sc"
  "ExpiresAt (set_iss c sc) = ExpiresAt sc" "Id' (set_iss c sc) = Id' sc"
  "IssuedAt (set_iss c sc) = IssuedAt sc"
  "Issuer (set_iss c sc) = (case string_claim c ''iss'' of None \<Rightarrow> Issuer sc | Some s \<Rightarrow> s)"
  "NotBefore (set_iss c sc) = NotBefore sc" "Subject (set_iss c sc) = Subject sc"
  by (simp_all add: set_iss_def string_claim_def split: option.splits any.splits)

lemma set_nbf_fields [simp]:
  "Audience (set_nbf L c sc) = Audience sc"
  "ExpiresAt (set_nbf L c sc) = ExpiresAt sc"
  "Id' (set_nbf L c sc) = Id' sc"
  "IssuedAt (set_nbf L c sc) = IssuedAt sc"
  "Issuer (set_nbf L c sc) = Issuer sc"
  "NotBefore (set_nbf L c sc) = (case parsed_claim L c ''nbf'' of None \<Rightarrow> NotBefore sc | Some n \<Rightarrow> n)"
  "Subject (set_nbf L c sc) = Subject sc"
  by (simp_all add: set_nbf_def parsed_claim_def split: option.splits)

lemma set_sub_fields [simp]:
  "Audience (set_sub c sc) = Audience sc"
  "ExpiresAt (set_sub c sc) = ExpiresAt sc"
  "Id' (set_sub c sc) = (case string_claim c ''sub'' of None \<Rightarrow> Id' sc | Some s \<Rightarrow> s)"
  "IssuedAt (set_sub c sc) = IssuedAt sc" "Issuer (set_sub c sc) = Issuer sc"
  "NotBefore (set_sub c sc) = NotBefore sc" "Subject (set_sub c sc) = Subject sc"
  by (simp_all add: set_sub_def string_claim_def split: option.splits any.splits)

lemma times_standardClaim [simp]:
  "ExpiresAt (standardClaim L c) = time_claim L c ''exp''"
  "IssuedAt (standardClaim L c) = time_claim L c ''iat''"
  "NotBefore (standardClaim L c) = time_claim L c ''nbf''"
  by (simp_all add: standardClaim_def zero_claims_def time_claim_def cong: option.case_cong)

lemma strings_standardClaim [simp]:
  "Audience (standardClaim L c) = (case string_claim c ''aud'' of None \<Rightarrow> [] | Some s \<Rightarrow> s)"
  "Issuer (standardClaim L c) = (case string_claim c ''iss'' of None \<Rightarrow> [] | Some s \<Rightarrow> s)"
  "Subject (standardClaim L c) = []"
  "Id' (standardClaim L c) = (case string_claim c ''sub'' of Some s \<Rightarrow> s
     | None \<Rightarrow> (case string_claim c ''jti'' of None \<Rightarrow> [] | Some s \<Rightarrow> s))"
  by (simp_all add: standardClaim_def zero_claims_def cong: option.case_cong)

lemma error_mask_eq_0 [simp]: "error_mask x i n = 0 \<longleftrightarrow> \<not> x \<and> \<not> i \<and> \<not> n"
  by (simp add: error_mask_def)

lemma StandardClaims_Valid_mask:
  "StandardClaims_Valid now c =
     (let m = error_mask (expired now (ExpiresAt c)) (premature now (IssuedAt c))
                (premature now (NotBefore c))
      in if m = 0 then None else Some (ValidationError m))"
  by (simp add: StandardClaims_Valid_def error_mask_def expired_def premature_def Let_def
      word_sle_eq word_sless_alt not_le not_less)

lemma bit_error_mask [simp]:
  "bit (error_mask x i n) 4 \<longleftrightarrow> x" "bit (error_mask x i n) 5 \<longleftrightarrow> i"
  "bit (error_mask x i n) 7 \<longleftrightarrow> n"
  by (cases x; cases i; cases n; simp add: error_mask_def)+

lemma Valid_Some: "Valid L now (Some c) = StandardClaims_Valid now (standardClaim L c)"
  by (simp add: Valid_def)

lemmas Valid_unfold = Valid_Some StandardClaims_Valid_mask

lemma expired_mono: "expired now e \<Longrightarrow> now \<le>s now' \<Longrightarrow> expired now' e"
  by (auto simp: expired_def word_sle_eq word_sless_alt)

lemma valid_window:
  assumes "time_claim L c ''iat'' \<le>s now" and "time_claim L c ''nbf'' \<le>s now"
    and "now \<le>s time_claim L c ''exp''"
  shows "Valid L now (Some c) = None"
  using assms
  by (simp add: Valid_unfold expired_def premature_def word_sle_eq word_sless_alt)

text \<open>
  A value of \<^verbatim>\<open>AppClaims\<close> is checked through the embedded standard claims: its own
  fields play no part.
\<close>

lemma AppClaims_Valid:
  "StandardClaims_Valid now (a :: AppClaims) = StandardClaims_Valid now (StandardClaims.truncate a)"
  by (simp add: StandardClaims_Valid_def StandardClaims.truncate_def)

section \<open>Theorems\<close>

text \<open>
  C29. \<^verbatim>\<open>Valid\<close> on a \<^verbatim>\<open>nil\<close> receiver returns the error
  \<^verbatim>\<open>MapClaims is nil\<close>. On a map it returns \<^verbatim>\<open>nil\<close> exactly when none of three checks
  fails, and otherwise a validation error whose mask has bit 4 set when
  \<^verbatim>\<open>exp\<close> is non-zero and before now, bit 5 when \<^verbatim>\<open>iat\<close> is non-zero and after
  now, bit 7 when \<^verbatim>\<open>nbf\<close> is non-zero and after now; the three flags are disjoint,
  so the bitwise or of the library is their sum.
\<close>

theorem Valid_mask:
  "Valid L now None = Some (Errorf ''MapClaims is nil'') \<and>
   Valid L now (Some c) =
     (let m = error_mask (expired now (time_claim L c ''exp''))
                (premature now (time_claim L c ''iat'')) (premature now (time_claim L c ''nbf''))
      in if m = 0 then None else Some (ValidationError m))"
  by (simp add: Valid_def StandardClaims_Valid_mask)

text \<open>
  C30. When the map has both a string \<^verbatim>\<open>jti\<close> and a string \<^verbatim>\<open>sub\<close>, the copy's
  \<^verbatim>\<open>Id\<close> is the subject, not the token id, and its \<^verbatim>\<open>Subject\<close> stays empty: the
  last block of \<^verbatim>\<open>Valid\<close> assigns \<^verbatim>\<open>sub\<close> to \<^verbatim>\<open>Id\<close>.
\<close>

theorem sub_overwrites_jti:
  assumes "c ''jti'' = Some (Str j)" and "c ''sub'' = Some (Str s)"
  shows "Id' (standardClaim L c) = s \<and> Subject (standardClaim L c) = []"
  using assms by (simp add: string_claim_def)

theorem sub_overwrites_jti_witness:
  "Id' (standardClaim demo_conv [''jti'' \<mapsto> Str ''token-1'', ''sub'' \<mapsto> Str ''alice''])
     = ''alice'' \<and>
   Subject (standardClaim demo_conv [''jti'' \<mapsto> Str ''token-1'', ''sub'' \<mapsto> Str ''alice''])
     = []"
  by (rule sub_overwrites_jti) simp_all

text \<open>
  C31. A map whose \<^verbatim>\<open>exp\<close> does not parse as a number, and which has no \<^verbatim>\<open>iat\<close>
  and no \<^verbatim>\<open>nbf\<close>, is valid at every time: the failed conversion leaves
  \<^verbatim>\<open>ExpiresAt\<close> at zero, which the library reads as no expiry.
\<close>

theorem unparsable_exp_never_expires:
  assumes "c ''exp'' = Some v" and "ParseFloat L (Sprintf L v) = None"
    and "c ''iat'' = None" and "c ''nbf'' = None"
  shows "Valid L now (Some c) = None"
  using assms
  by (simp add: Valid_unfold time_claim_def parsed_claim_def expired_def premature_def)

theorem unparsable_exp_never_expires_witness:
  "Valid demo_conv 9223372036854775807 (Some [''exp'' \<mapsto> Str ''never'']) = None"
  by (rule unparsable_exp_never_expires [where v = "Str ''never''"])
     (simp_all add: demo_conv_def digits_def)

text \<open>
  C32. The verdict of \<^verbatim>\<open>Valid\<close> depends on the entries \<^verbatim>\<open>exp\<close>, \<^verbatim>\<open>iat\<close> and
  \<^verbatim>\<open>nbf\<close> only: two maps that agree on these three get the same result, whatever
  their audience, issuer, subject, token id and other entries are.
\<close>

theorem Valid_depends_only_on_times:
  assumes "\<forall>k \<in> {''exp'', ''iat'', ''nbf''}. c k = c' k"
  shows "Valid L now (Some c) = Valid L now (Some c')"
  using assms by (simp add: Valid_unfold time_claim_def parsed_claim_def)

theorem Valid_depends_only_on_times_witness:
  "Valid demo_conv 1700000000 (Some [''exp'' \<mapsto> Dyn ''1800000000'', ''sub'' \<mapsto> Str ''alice''])
   = Valid demo_conv 1700000000 (Some [''exp'' \<mapsto> Dyn ''1800000000'', ''aud'' \<mapsto> Dyn ''7''])"
  by (rule Valid_depends_only_on_times) simp

text \<open>
  Expiry is permanent: if \<^verbatim>\<open>Valid\<close> reports the expiry bit at some time, it
  reports it at every later time, in the signed 64-bit order of the clock.
\<close>

theorem expiry_is_permanent:
  assumes "Valid L now (Some c) = Some (ValidationError m)" and "bit m 4" and "now \<le>s now'"
  shows "\<exists>m'. Valid L now' (Some c) = Some (ValidationError m') \<and> bit m' 4"
proof -
  from assms(1,2) have "expired now (time_claim L c ''exp'')"
    by (auto simp: Valid_unfold Let_def split: if_splits)
  then have "expired now' (time_claim L c ''exp'')"
    using assms(3) by (rule expired_mono)
  then show ?thesis
    by (simp add: Valid_unfold Let_def)
qed

theorem expiry_is_permanent_witness:
  "\<exists>m'. Valid demo_conv 1800000000 (Some [''exp'' \<mapsto> Dyn ''1600000000'']) =
      Some (ValidationError m') \<and> bit m' 4"
proof (rule expiry_is_permanent [where now = 1700000000 and m = 16])
  show "Valid demo_conv 1700000000 (Some [''exp'' \<mapsto> Dyn ''1600000000'']) =
      Some (ValidationError 16)"
    by (simp add: Valid_Some StandardClaims_Valid_def standardClaim_def setter_defs
        zero_claims_def demo_conv_def digits_def word_sle_eq)
qed (simp_all add: word_sle_eq)

end
