(* ===== verification/Go_Strings.thy ===== *)
theory Go_Strings
  imports Prelude
begin

text \<open>
  The functions of Go's package \<^verbatim>\<open>strings\<close> that the sources call: \<^verbatim>\<open>Join\<close>
  (\<^verbatim>\<open>src/lib/nats/nats.go\<close>), \<^verbatim>\<open>Split\<close> (\<^verbatim>\<open>src/http/middleware/requestentry.go\<close>)
  and \<^verbatim>\<open>TrimSpace\<close> (\<^verbatim>\<open>src/utils/version.go\<close>). The package is not part of the
  repository; the definitions follow its documentation. A Go string is a list of
  bytes, here a \<open>string\<close>; \<^verbatim>\<open>TrimSpace\<close> is given for the six ASCII white-space
  characters (Go also trims the two-byte encodings of U+0085 and U+00A0).
\<close>

section \<open>Definitions\<close>

fun Join :: "string list \<Rightarrow> string \<Rightarrow> string" where
  "Join [] sep = []"
| "Join [x] sep = x"
| "Join (x # y # ys) sep = x @ sep @ Join (y # ys) sep"

text \<open>
  \<open>split_from sep acc s\<close> scans \<open>s\<close> from the left with the current piece reversed in
  \<open>acc\<close>, cutting at each leftmost occurrence of the non-empty separator.
\<close>

function split_from :: "string \<Rightarrow> string \<Rightarrow> string \<Rightarrow> string list" where
  "split_from sep acc s =
     (if s = [] then [rev acc]
      else if sep \<noteq> [] \<and> take (length sep) s = sep
        then rev acc # split_from sep [] (drop (length sep) s)
      else split_from sep (hd s # acc) (tl s))"
  by pat_completeness auto

termination
  by (relation "measure (\<lambda>(sep, acc, s). length s)") auto

declare split_from.simps [simp del]

definition Split :: "string \<Rightarrow> string \<Rightarrow> string list" where
  "Split s sep = (if sep = [] then map (\<lambda>ch. [ch]) s else split_from sep [] s)"

definition isSpace :: "char \<Rightarrow> bool" where
  "isSpace ch \<longleftrightarrow> ch \<in> set [CHR 0x09, CHR 0x0A, CHR 0x0B, CHR 0x0C, CHR 0x0D, CHR '' '']"

definition TrimSpace :: "string \<Rightarrow> string" where
  "TrimSpace s = rev (dropWhile isSpace (rev (dropWhile isSpace s)))"

section \<open>Splitting\<close>

lemma split_from_Nil [simp]: "split_from sep acc [] = [rev acc]"
  by (simp add: split_from.simps)

lemma split_from_char_Cons [simp]:
  "split_from [c] acc (x # xs) =
     (if x = c then rev acc # split_from [c] [] xs else split_from [c] (x # acc) xs)"
  by (simp add: split_from.simps [of "[c]" acc "x # xs"])

lemma split_from_not_Nil [simp]: "split_from sep acc s \<noteq> []"
  by (induction sep acc s rule: split_from.induct) (subst split_from.simps, simp)

lemma Split_not_Nil: "sep \<noteq> [] \<Longrightarrow> Split s sep \<noteq> []"
  by (simp add: Split_def)

lemma Join_Cons: "Join (x # xs) sep = x @ (if xs = [] then [] else sep @ Join xs sep)"
  by (cases xs) simp_all

lemma Join_split_from: "Join (split_from sep acc s) sep = rev acc @ s"
proof (induction sep acc s rule: split_from.induct)
  case (1 sep acc s)
  show ?case
  proof (cases "s = []")
    case True
    then show ?thesis by simp
  next
    case False
    show ?thesis
    proof (cases "sep \<noteq> [] \<and> take (length sep) s = sep")
      case True
      with False "1.IH"(1) have "Join (split_from sep [] (drop (length sep) s)) sep = drop (length sep) s"
        by simp
      moreover from True have "sep @ drop (length sep) s = s"
        by (metis append_take_drop_id)
      ultimately show ?thesis
        using True False by (subst split_from.simps) (simp add: Join_Cons)
    next
      case no: False
      with False "1.IH"(2) have "Join (split_from sep (hd s # acc) (tl s)) sep = rev (hd s # acc) @ tl s"
        by simp
      with no False show ?thesis
        by (subst split_from.simps) auto
    qed
  qed
qed

lemma Join_Split: "sep \<noteq> [] \<Longrightarrow> Join (Split s sep) sep = s"
  by (simp add: Split_def Join_split_from)

lemma split_from_char_free:
  "c \<notin> set s \<Longrightarrow> split_from [c] acc s = [rev acc @ s]"
  by (induction s arbitrary: acc) auto

lemma split_from_char_append:
  "c \<notin> set x \<Longrightarrow> split_from [c] acc (x @ c # s) = (rev acc @ x) # split_from [c] [] s"
  by (induction x arbitrary: acc) auto

lemma hd_split_from_char:
  "hd (split_from [c] acc s) = rev acc @ takeWhile (\<lambda>x. x \<noteq> c) s"
  by (induction s arbitrary: acc) auto

lemma hd_Split_char: "hd (Split s [c]) = takeWhile (\<lambda>x. x \<noteq> c) s"
  by (simp add: Split_def hd_split_from_char)

lemma Split_Join_char:
  assumes "eps \<noteq> []" and "\<forall>e \<in> set eps. c \<notin> set e"
  shows "Split (Join eps [c]) [c] = eps"
  using assms
proof (induction eps rule: list_nonempty_induct)
  case (single e)
  then show ?case
    by (simp add: Split_def split_from_char_free)
next
  case (cons e eps)
  then show ?case
    by (cases eps) (simp_all add: Split_def split_from_char_append)
qed

section \<open>Trimming\<close>

lemma TrimSpace_Nil [simp]: "TrimSpace [] = []"
  by (simp add: TrimSpace_def)

lemma TrimSpace_id:
  assumes "s \<noteq> []" and "\<not> isSpace (hd s)" and "\<not> isSpace (last s)"
  shows "TrimSpace s = s"
proof -
  from assms have "dropWhile isSpace s = s"
    by (cases s) simp_all
  moreover from assms have "dropWhile isSpace (rev s) = rev s"
    by (cases "rev s") (simp_all add: last_rev [symmetric] hd_rev)
  ultimately show ?thesis
    by (simp add: TrimSpace_def)
qed

lemma last_dropWhile: "dropWhile P xs \<noteq> [] \<Longrightarrow> last (dropWhile P xs) = last xs"
  by (induction xs) auto

lemma TrimSpace_trimmed:
  assumes "TrimSpace s \<noteq> []"
  shows "\<not> isSpace (hd (TrimSpace s))" and "\<not> isSpace (last (TrimSpace s))"
proof -
  let ?t = "dropWhile isSpace s" and ?u = "dropWhile isSpace (rev (dropWhile isSpace s))"
  from assms have u: "?u \<noteq> []"
    by (simp add: TrimSpace_def)
  have t: "?t \<noteq> []"
  proof
    assume "?t = []"
    then have "?u = []"
      by (simp only: rev.simps dropWhile.simps)
    with u show False ..
  qed
  from u have "last ?u = last (rev ?t)"
    by (rule last_dropWhile)
  with t have "last ?u = hd ?t"
    by (simp add: last_rev)
  moreover from t have "\<not> isSpace (hd ?t)"
    by (rule hd_dropWhile)
  ultimately show "\<not> isSpace (hd (TrimSpace s))"
    using u by (simp add: TrimSpace_def hd_rev)
  from u have "\<not> isSpace (hd ?u)"
    by (rule hd_dropWhile)
  with u show "\<not> isSpace (last (TrimSpace s))"
    by (simp add: TrimSpace_def last_rev)
qed

lemma TrimSpace_idem [simp]: "TrimSpace (TrimSpace s) = TrimSpace s"
proof (cases "TrimSpace s = []")
  case True
  then show ?thesis by (simp only: TrimSpace_Nil)
next
  case False
  then show ?thesis by (intro TrimSpace_id TrimSpace_trimmed)
qed

lemma TrimSpace_Cons_space: "isSpace c \<Longrightarrow> TrimSpace (c # s) = TrimSpace s"
  by (simp add: TrimSpace_def)

lemma TrimSpace_snoc_space:
  assumes "isSpace c"
  shows "TrimSpace (s @ [c]) = TrimSpace s"
proof (cases "\<forall>x \<in> set s. isSpace x")
  case True
  then have "dropWhile isSpace s = []"
    by simp
  with assms True show ?thesis
    by (simp add: TrimSpace_def dropWhile_append2 del: dropWhile_eq_Nil_conv)
next
  case False
  then obtain x where "x \<in> set s" and "\<not> isSpace x"
    by blast
  then have "dropWhile isSpace (s @ [c]) = dropWhile isSpace s @ [c]"
    by (rule dropWhile_append1)
  with assms show ?thesis
    by (simp add: TrimSpace_def)
qed

lemma isSpace_simps [simp]:
  "isSpace CHR 0x0A" "isSpace CHR '' ''"
  by (simp_all add: isSpace_def)

end
