(* ===== verification/Nats.thy ===== *)
theory Nats
  imports Go_Strings
begin

text \<open>
  The NATS connection holder, \<^verbatim>\<open>src/lib/nats/nats.go\<close>: a package-level variable
  \<^verbatim>\<open>natsInstance\<close>, \<^verbatim>\<open>Init\<close> to connect and publish the connection there,
  \<^verbatim>\<open>GetInstance\<close> to read it, \<^verbatim>\<open>New\<close> to connect without publishing.

  \<^item> The package's variables are the record \<open>package\<close>; a function that reads or
    writes them takes the record and returns it.
  \<^item> The client library is a parameter: \<open>connect url opts\<close> is
    \<^verbatim>\<open>natsLib.Connect(url, opts)\<close>, \<open>Inl err\<close> for a non-nil error and \<open>Inr conn\<close>
    otherwise. The connection type is a type variable.
  \<^item> \<^verbatim>\<open>panic(err)\<close> is \<open>Inl (Panic err)\<close>; a panicking \<^verbatim>\<open>Init\<close> has not assigned the
    variable.
  \<^item> \<^verbatim>\<open>Conf\<close> is declared in the package outside \<^verbatim>\<open>src/\<close>; the record has the
    three fields \<^verbatim>\<open>nats.go\<close> reads. \<open>Option\<close> is the library's option value as far
    as the code builds it: the \<^verbatim>\<open>nil\<close> option, or \<^verbatim>\<open>UserInfo(user, password)\<close>.
\<close>

section \<open>Data\<close>

record Conf =
  Endpoints :: "string list"
  Username :: string
  Password :: string

datatype Option = NilOption | UserInfo string string

type_synonym 'c Connect = "string \<Rightarrow> Option \<Rightarrow> string + 'c"

record 'c package =
  natsInstance :: "'c option"

datatype op = DoInit Conf | DoNew Conf | DoGetInstance

section \<open>Operations\<close>

definition options_of :: "Conf \<Rightarrow> Option" where
  "options_of conf =
     (if length (Username conf) \<noteq> 0 \<and> length (Password conf) \<noteq> 0
      then UserInfo (Username conf) (Password conf) else NilOption)"

definition initNats :: "'c Connect \<Rightarrow> Conf \<Rightarrow> 'c result" where
  "initNats connect conf =
     (let opts = options_of conf in
      case connect (Join (Endpoints conf) '','') opts of
        Inl err \<Rightarrow> Inl (Panic err)
      | Inr conn \<Rightarrow> Inr conn)"

definition Init :: "'c Connect \<Rightarrow> Conf \<Rightarrow> 'c package \<Rightarrow> 'c package result" where
  "Init connect conf p =
     (case initNats connect conf of
        Inl e \<Rightarrow> Inl e
      | Inr conn \<Rightarrow> Inr (p\<lparr>natsInstance := Some conn\<rparr>))"

definition GetInstance :: "'c package \<Rightarrow> 'c option" where
  "GetInstance p = natsInstance p"

definition New :: "'c Connect \<Rightarrow> Conf \<Rightarrow> 'c result" where
  "New connect conf = initNats connect conf"

text \<open>
  A client of the package: a sequence of calls, run until the first panic. The results
  of \<^verbatim>\<open>New\<close> and \<^verbatim>\<open>GetInstance\<close> go to the caller; only the package's state is
  followed.
\<close>

fun client_call :: "'c Connect \<Rightarrow> op \<Rightarrow> 'c package \<Rightarrow> 'c package result" where
  "client_call connect (DoInit conf) p = Init connect conf p"
| "client_call connect (DoNew conf) p = map_sum id (\<lambda>_. p) (New connect conf)"
| "client_call connect DoGetInstance p = Inr p"

fun client_calls :: "'c Connect \<Rightarrow> op list \<Rightarrow> 'c package \<Rightarrow> 'c package result" where
  "client_calls connect [] p = Inr p"
| "client_calls connect (x # xs) p =
     (case client_call connect x p of Inl e \<Rightarrow> Inl e | Inr p' \<Rightarrow> client_calls connect xs p')"

definition is_Init :: "op \<Rightarrow> bool" where
  "is_Init x = (case x of DoInit _ \<Rightarrow> True | _ \<Rightarrow> False)"

text \<open>Two client libraries for closed examples: one that records its arguments as the
  connection, one that refuses every connection.\<close>

definition recording :: "(string list \<times> Option) Connect" where
  "recording url opts = Inr (Split url '','', opts)"

definition refusing :: "nat Connect" where
  "refusing url opts = Inl ''nats: no servers available for connection''"

definition demo_conf :: Conf where
  "demo_conf = \<lparr>Endpoints = [''nats://a:4222'', ''nats://b:4222''], Username = ''svc'',
     Password = ''secret''\<rparr>"

section \<open>Lemmas\<close>

lemma client_call_instance:
  assumes "client_call connect x p = Inr p'"
  shows "natsInstance p' \<noteq> None \<longleftrightarrow> is_Init x \<or> natsInstance p \<noteq> None"
  using assms
  by (cases x) (auto simp: Init_def is_Init_def map_sum_def split: sum.splits)

lemma client_calls_instance:
  assumes "client_calls connect xs p = Inr p'"
  shows "natsInstance p' \<noteq> None \<longleftrightarrow> (\<exists>x \<in> set xs. is_Init x) \<or> natsInstance p \<noteq> None"
  using assms
proof (induction xs arbitrary: p)
  case Nil
  then show ?case by simp
next
  case (Cons x xs)
  then obtain q where q: "client_call connect x p = Inr q"
    and rest: "client_calls connect xs q = Inr p'"
    by (auto split: sum.splits)
  from Cons.IH [OF rest] client_call_instance [OF q] show ?case
    by auto
qed

section \<open>Theorems\<close>

text \<open>
  C33. Starting with no published connection, after any sequence of calls of
  \<^verbatim>\<open>Init\<close>, \<^verbatim>\<open>New\<close> and \<^verbatim>\<open>GetInstance\<close> that did not panic, \<^verbatim>\<open>GetInstance\<close>
  returns a connection exactly when \<^verbatim>\<open>Init\<close> was among the calls: \<^verbatim>\<open>New\<close> never
  publishes, and before the first \<^verbatim>\<open>Init\<close> the caller gets \<^verbatim>\<open>nil\<close>.
\<close>

theorem GetInstance_nil_iff_no_Init:
  assumes "client_calls connect xs \<lparr>natsInstance = None\<rparr> = Inr p"
  shows "GetInstance p = None \<longleftrightarrow> \<not> (\<exists>x \<in> set xs. is_Init x)"
  using client_calls_instance [OF assms] by (auto simp: GetInstance_def)

theorem GetInstance_nil_iff_no_Init_witness:
  "GetInstance (projr (client_calls recording [DoNew demo_conf, DoGetInstance]
       \<lparr>natsInstance = None\<rparr>)) = None \<longleftrightarrow>
   \<not> (\<exists>x \<in> set [DoNew demo_conf, DoGetInstance]. is_Init x)"
  by (rule GetInstance_nil_iff_no_Init [where connect = recording])
     (simp add: New_def initNats_def recording_def)

text \<open>
  \<^verbatim>\<open>Init\<close> connects exactly as \<^verbatim>\<open>New\<close> does: it panics when \<^verbatim>\<open>New\<close>
  panics, with the same value and without touching the published connection, and
  otherwise publishes the connection \<^verbatim>\<open>New\<close> would return.
\<close>

theorem Init_as_New:
  "Init connect conf p = map_sum id (\<lambda>conn. p\<lparr>natsInstance := Some conn\<rparr>) (New connect conf)"
  by (simp add: Init_def New_def map_sum_def split: sum.splits)

text \<open>
  C34. The library receives the configured endpoints and credentials: a client that
  records its arguments sees, after splitting the URL at the commas, the list of
  endpoints of the configuration, provided there is at least one and none contains a
  comma, together with the user-info option when user name and password are both
  non-empty.
\<close>

theorem initNats_passes_configuration:
  assumes "Endpoints conf \<noteq> []" and "\<forall>e \<in> set (Endpoints conf). CHR '','' \<notin> set e"
  shows "initNats recording conf =
     Inr (Endpoints conf,
          if Username conf \<noteq> [] \<and> Password conf \<noteq> []
          then UserInfo (Username conf) (Password conf) else NilOption)"
  using assms by (simp add: initNats_def recording_def Split_Join_char options_of_def)

theorem initNats_passes_configuration_witness:
  "initNats recording demo_conf =
     Inr ([''nats://a:4222'', ''nats://b:4222''], UserInfo ''svc'' ''secret'')"
  using initNats_passes_configuration [of demo_conf]
  by (simp add: demo_conf_def)

text \<open>
  Credentials are sent only when both are set: with an empty user name or an
  empty password the connection is made with the \<^verbatim>\<open>nil\<close> option, so a configured
  password without a user name is dropped silently.
\<close>

theorem credentials_need_both:
  "initNats connect conf =
     initNats connect (if Username conf = [] \<or> Password conf = []
       then conf\<lparr>Username := [], Password := []\<rparr> else conf) \<and>
   (options_of conf = NilOption \<longleftrightarrow> Username conf = [] \<or> Password conf = [])"
  by (simp add: initNats_def options_of_def)

text \<open>
  When the library refuses the connection, \<^verbatim>\<open>Init\<close> and \<^verbatim>\<open>New\<close> panic with
  the library's error, and a client that started with \<^verbatim>\<open>Init\<close> has stopped there.
\<close>

theorem refused_connection_panics:
  assumes "connect (Join (Endpoints conf) '','') (options_of conf) = Inl err"
  shows "Init connect conf p = Inl (Panic err) \<and> New connect conf = Inl (Panic err) \<and>
    client_calls connect (DoInit conf # xs) p = Inl (Panic err)"
  using assms by (simp add: Init_def New_def initNats_def)

theorem refused_connection_panics_witness:
  "Init refusing demo_conf \<lparr>natsInstance = Some 1\<rparr> =
     Inl (Panic ''nats: no servers available for connection'') \<and>
   New refusing demo_conf = Inl (Panic ''nats: no servers available for connection'') \<and>
   client_calls refusing [DoInit demo_conf, DoGetInstance] \<lparr>natsInstance = Some 1\<rparr> =
     Inl (Panic ''nats: no servers available for connection'')"
  by (rule refused_connection_panics) (simp add: refusing_def)

end
