(* ===== verification/Request_Entry.thy ===== *)
theory Request_Entry
  imports Go_Strings
begin

text \<open>
  The request-entry middleware, \<^verbatim>\<open>src/http/middleware/requestentry.go\<close>: the handler
  that gives every request a request id, a span id, its time of arrival, a logger
  carrying both ids, and the client's language, and then runs the rest of the chain.

  \<^item> \<open>Context\<close> is the part of \<^verbatim>\<open>gin.Context\<close> the handler touches: the request's
    headers as the function \<^verbatim>\<open>c.Request.Header.Get\<close>, and the key/value store that
    \<^verbatim>\<open>c.Set\<close> writes.
  \<^item> The handler asks for one UUID and for the time once per request; they are the
    arguments \<open>uuid\<close> and \<open>now\<close>. The rest of the chain, run by \<^verbatim>\<open>c.Next()\<close>, is the
    argument \<open>next\<close>.
  \<^item> A logger is the list of the fields added to the base logger.
\<close>

section \<open>Data\<close>

datatype stored = VString string | VInt64 int64 | VLogger "(string \<times> string) list"

record Context =
  Header_Get :: "string \<Rightarrow> string"
  Keys :: "string \<rightharpoonup> stored"

definition Set :: "string \<Rightarrow> stored \<Rightarrow> Context \<Rightarrow> Context" where
  "Set k v c = c\<lparr>Keys := (Keys c)(k \<mapsto> v)\<rparr>"

section \<open>The handler, block by block\<close>

definition requestIdInHeader :: "Context \<Rightarrow> string" where
  "requestIdInHeader c =
     (let h = Header_Get c ''requestId'' in
      if length h = 0 then Header_Get c ''X-Request-Id'' else h)"

definition ids :: "string \<Rightarrow> string \<Rightarrow> string \<times> string" where
  "ids h uuid = (if length h > 0 then (h, uuid) else (let requestId = uuid in (requestId, requestId)))"

definition client_language :: "Context \<Rightarrow> string" where
  "client_language c =
     (let language = ''en''; al = Header_Get c ''accept-language'' in
      if length al > 0
      then (let als = Split al '','' in if length als > 0 then als ! 0 else language)
      else language)"

definition RequestEntry :: "string \<Rightarrow> int64 \<Rightarrow> (Context \<Rightarrow> Context) \<Rightarrow> Context \<Rightarrow> Context" where
  "RequestEntry uuid now next c =
     (let (requestId, spanId) = ids (requestIdInHeader c) uuid;
          c1 = Set ''requestId'' (VString requestId) c;
          c2 = Set ''spanId'' (VString spanId) c1;
          c3 = Set ''entryAt'' (VInt64 now) c2;
          c4 = Set ''logger'' (VLogger [(''requestId'', requestId), (''spanId'', spanId)]) c3;
          c5 = Set ''language'' (VString (client_language c4)) c4
      in next c5)"

section \<open>What the handler promises\<close>

definition injected :: "string set" where
  "injected = {''requestId'', ''spanId'', ''entryAt'', ''logger'', ''language''}"

definition inbound_id :: "Context \<Rightarrow> string option" where
  "inbound_id c =
     (if Header_Get c ''requestId'' \<noteq> [] then Some (Header_Get c ''requestId'')
      else if Header_Get c ''X-Request-Id'' \<noteq> [] then Some (Header_Get c ''X-Request-Id'')
      else None)"

text \<open>A request for closed examples: its headers as an association list.\<close>

definition request :: "(string \<times> string) list \<Rightarrow> Context" where
  "request hs = \<lparr>Header_Get = (\<lambda>k. case map_of hs k of None \<Rightarrow> [] | Some v \<Rightarrow> v),
     Keys = Map.empty\<rparr>"

section \<open>Lemmas\<close>

lemma Set_simps [simp]:
  "Header_Get (Set k v c) = Header_Get c"
  "Keys (Set k v c) = (Keys c)(k \<mapsto> v)"
  by (simp_all add: Set_def)

lemma requestIdInHeader_inbound:
  "requestIdInHeader c = (case inbound_id c of None \<Rightarrow> [] | Some h \<Rightarrow> h)"
  by (simp add: requestIdInHeader_def inbound_id_def)

lemma inbound_id_not_empty [simp]: "inbound_id c \<noteq> Some []"
  by (simp add: inbound_id_def)

lemma ids_inbound:
  "ids (requestIdInHeader c) uuid = (case inbound_id c of None \<Rightarrow> uuid | Some h \<Rightarrow> h, uuid)"
  using inbound_id_not_empty [of c]
  by (cases "inbound_id c") (auto simp: ids_def requestIdInHeader_inbound)

lemma client_language_Keys [simp]: "client_language (c\<lparr>Keys := m\<rparr>) = client_language c"
  by (simp add: client_language_def)

lemma client_language_eq:
  "client_language c =
     (let al = Header_Get c ''accept-language'' in
      if al = [] then ''en'' else takeWhile (\<lambda>ch. ch \<noteq> CHR '','') al)"
  using Split_not_Nil [of "'',''" "Header_Get c ''accept-language''"]
  by (simp add: client_language_def Let_def hd_conv_nth [symmetric] hd_Split_char)

lemma RequestEntry_eq:
  "RequestEntry uuid now next c =
     next (c\<lparr>Keys := (Keys c)
       (''requestId'' \<mapsto> VString (case inbound_id c of None \<Rightarrow> uuid | Some h \<Rightarrow> h),
        ''spanId'' \<mapsto> VString uuid,
        ''entryAt'' \<mapsto> VInt64 now,
        ''logger'' \<mapsto> VLogger [(''requestId'', case inbound_id c of None \<Rightarrow> uuid | Some h \<Rightarrow> h),
           (''spanId'', uuid)],
        ''language'' \<mapsto> VString (client_language c))\<rparr>)"
  by (simp add: RequestEntry_def ids_inbound Set_def)

section \<open>Theorems\<close>

text \<open>
  C35. The request id is the header \<^verbatim>\<open>requestId\<close> when it is non-empty, else the
  header \<^verbatim>\<open>X-Request-Id\<close> when that is non-empty, else the fresh UUID; the span id
  is the fresh UUID in every case, so it equals the request id when the request brought
  no id.
\<close>

theorem request_and_span_ids:
  "Keys (RequestEntry uuid now (\<lambda>c. c) c) ''requestId'' =
     Some (VString (if Header_Get c ''requestId'' \<noteq> [] then Header_Get c ''requestId''
                    else if Header_Get c ''X-Request-Id'' \<noteq> [] then Header_Get c ''X-Request-Id''
                    else uuid)) \<and>
   Keys (RequestEntry uuid now (\<lambda>c. c) c) ''spanId'' = Some (VString uuid)"
  by (simp add: RequestEntry_eq inbound_id_def)

text \<open>
  C36. The language put into the context is \<^verbatim>\<open>en\<close> when the header
  \<^verbatim>\<open>accept-language\<close> is empty, and otherwise the header's text before its first
  comma, as it stands: a quality parameter or white space in it is kept, and a header
  that starts with a comma gives the empty language. The test \<^verbatim>\<open>len(als) > 0\<close> of
  the source never fails.
\<close>

theorem language_is_first_element:
  "Keys (RequestEntry uuid now (\<lambda>c. c) c) ''language'' =
     Some (VString (if Header_Get c ''accept-language'' = [] then ''en''
                    else takeWhile (\<lambda>ch. ch \<noteq> CHR '','') (Header_Get c ''accept-language''))) \<and>
   client_language (request [(''accept-language'', ''zh-CN,zh;q=0.9,en;q=0.8,ja;q=0.7'')])
     = ''zh-CN'' \<and>
   client_language (request [(''accept-language'', ''en;q=0.8,fr'')]) = ''en;q=0.8'' \<and>
   client_language (request [(''accept-language'', '',fr'')]) = []"
  by (simp add: RequestEntry_eq client_language_eq request_def)

text \<open>
  C37. The handler runs the rest of the chain exactly once, on a context with the same
  headers whose store has the five keys \<^verbatim>\<open>requestId\<close>, \<^verbatim>\<open>spanId\<close>, \<^verbatim>\<open>entryAt\<close>,
  \<^verbatim>\<open>logger\<close> and \<^verbatim>\<open>language\<close> added and every other key as before.
\<close>

theorem RequestEntry_frame:
  "\<exists>c'. RequestEntry uuid now next c = next c' \<and> Header_Get c' = Header_Get c \<and>
     dom (Keys c') = dom (Keys c) \<union> injected \<and> (\<forall>k. k \<notin> injected \<longrightarrow> Keys c' k = Keys c k)"
  by (simp add: RequestEntry_eq injected_def) auto

theorem RequestEntry_frame_witness:
  "\<exists>c'. RequestEntry ''6ba7b810'' 1700000000000000000 (Set ''seen'' (VString ''yes''))
       (request [(''requestId'', ''r-1'')]) = Set ''seen'' (VString ''yes'') c' \<and>
     Header_Get c' = Header_Get (request [(''requestId'', ''r-1'')]) \<and>
     dom (Keys c') = dom (Keys (request [(''requestId'', ''r-1'')])) \<union> injected"
  using RequestEntry_frame [of "''6ba7b810''" 1700000000000000000 "Set ''seen'' (VString ''yes'')"
      "request [(''requestId'', ''r-1'')]"]
  by blast

text \<open>
  The logger stored in the context carries exactly the request id and the span id
  stored beside it, and the arrival time stored is the time the handler read; the two
  ids coincide exactly when the request brought no id or brought the fresh UUID itself.
\<close>

theorem logger_carries_ids:
  "\<exists>r s. Keys (RequestEntry uuid now (\<lambda>c. c) c) ''requestId'' = Some (VString r) \<and>
     Keys (RequestEntry uuid now (\<lambda>c. c) c) ''spanId'' = Some (VString s) \<and>
     Keys (RequestEntry uuid now (\<lambda>c. c) c) ''logger'' =
       Some (VLogger [(''requestId'', r), (''spanId'', s)]) \<and>
     Keys (RequestEntry uuid now (\<lambda>c. c) c) ''entryAt'' = Some (VInt64 now) \<and>
     (r = s \<longleftrightarrow> inbound_id c = None \<or> inbound_id c = Some uuid)"
  by (cases "inbound_id c") (auto simp: RequestEntry_eq)

end
