(* ===== verification/Unsafe_Strings.thy ===== *)
theory Unsafe_Strings
  imports Prelude
begin

text \<open>
  The conversions between strings and byte slices that do not copy,
  \<^verbatim>\<open>src/utils/string_go1.19.go\<close>. A Go string is a header of a data pointer and a
  length, a slice a header of a data pointer, a length and a capacity;
  \<^verbatim>\<open>StrToBytes\<close> and \<^verbatim>\<open>BytesToStr\<close> build one header from the other and reinterpret
  it, so the result shares the bytes of the argument.

  \<^item> \<open>StringHeader\<close> and \<open>SliceHeader\<close> are \<^verbatim>\<open>reflect.StringHeader\<close> and
    \<^verbatim>\<open>reflect.SliceHeader\<close>; the second extends the first by \<^verbatim>\<open>Cap\<close>, as the layout
    of the two structs does. A string or slice value is its header.
  \<^item> Memory is an explicit store from addresses to bytes; \<open>contents\<close> reads the bytes
    a header denotes and \<open>store\<close> is the assignment \<^verbatim>\<open>b[i] = v\<close>, which panics out of
    range. Addresses are 64-bit words and wrap around.
\<close>

section \<open>Headers and memory\<close>

type_synonym byte = "8 word"

type_synonym memory = "64 word \<Rightarrow> byte"

record StringHeader =
  Data :: "64 word"
  Len :: int64

record SliceHeader = StringHeader +
  Cap :: int64

definition contents :: "memory \<Rightarrow> 'z StringHeader_scheme \<Rightarrow> byte list" where
  "contents mem h = map (\<lambda>i. mem (Data h + of_nat i)) [0..<nat (sint (Len h))]"

definition store :: "SliceHeader \<Rightarrow> nat \<Rightarrow> byte \<Rightarrow> memory \<Rightarrow> memory result" where
  "store b i v mem =
     (if int i < sint (Len b) then Inr (mem(Data b + of_nat i := v))
      else Inl (Panic ''index out of range''))"

section \<open>The conversions\<close>

definition StrToBytes :: "StringHeader \<Rightarrow> SliceHeader" where
  "StrToBytes s =
     (let sh = s;
          bh = \<lparr>Data = Data sh, Len = Len sh, Cap = Len sh\<rparr>
      in bh)"

definition BytesToStr :: "SliceHeader \<Rightarrow> StringHeader" where
  "BytesToStr b =
     (let bh = b;
          sh = \<lparr>Data = Data bh, Len = Len bh\<rparr>
      in sh)"

section \<open>Lemmas\<close>

lemma StrToBytes_fields [simp]:
  "Data (StrToBytes s) = Data s" "Len (StrToBytes s) = Len s" "Cap (StrToBytes s) = Len s"
  by (simp_all add: StrToBytes_def)

lemma BytesToStr_fields [simp]:
  "Data (BytesToStr b) = Data b" "Len (BytesToStr b) = Len b"
  by (simp_all add: BytesToStr_def)

lemma length_contents [simp]: "length (contents mem h) = nat (sint (Len h))"
  by (simp add: contents_def)

lemma nth_contents:
  "i < nat (sint (Len h)) \<Longrightarrow> contents mem h ! i = mem (Data h + of_nat i)"
  by (simp add: contents_def)

lemma nat_sint_bound: "nat (sint (n :: int64)) < 18446744073709551616"
  using sint_int64_numeral_bounds(2) [of n] by linarith

lemma offset_inj:
  fixes a :: "64 word"
  assumes "i < nat (sint (n :: int64))" and "j < nat (sint n)"
  shows "a + of_nat i = a + of_nat j \<longleftrightarrow> i = j"
proof -
  from assms nat_sint_bound [of n] have "i < 18446744073709551616" and "j < 18446744073709551616"
    by linarith+
  then have "unat (of_nat i :: 64 word) = i" and "unat (of_nat j :: 64 word) = j"
    by (simp_all add: unat_of_nat)
  then have "(of_nat i :: 64 word) = of_nat j \<longleftrightarrow> i = j"
    by metis
  then show ?thesis
    by simp
qed

lemma contents_update:
  assumes "i < nat (sint (Len h))"
  shows "contents (mem(Data h + of_nat i := v)) h = (contents mem h)[i := v]"
proof (rule nth_equalityI)
  show "length (contents (mem(Data h + of_nat i := v)) h) = length ((contents mem h)[i := v])"
    by simp
next
  fix j
  assume "j < length (contents (mem(Data h + of_nat i := v)) h)"
  then have j: "j < nat (sint (Len h))"
    by simp
  have "Data h + of_nat j = Data h + of_nat i \<longleftrightarrow> j = i"
    using j assms by (rule offset_inj)
  with assms j show "contents (mem(Data h + of_nat i := v)) h ! j = (contents mem h)[i := v] ! j"
    by (simp add: nth_contents nth_list_update del: add_left_cancel)
qed

section \<open>Theorems\<close>

text \<open>
  C38. Converting a string to bytes and back gives the string itself, converting
  bytes to a string and back gives the same bytes with the capacity cut down to the
  length, and in either direction the result denotes the same bytes of memory as the
  argument: nothing is copied.
\<close>

theorem conversions_round_trip:
  "BytesToStr (StrToBytes s) = s \<and>
   StrToBytes (BytesToStr b) = b\<lparr>Cap := Len b\<rparr> \<and>
   contents mem (StrToBytes s) = contents mem s \<and>
   contents mem (BytesToStr b) = contents mem b"
  by (simp add: contents_def StrToBytes_def BytesToStr_def)

text \<open>
  C39. The bytes returned by \<^verbatim>\<open>StrToBytes\<close> alias the string: an assignment to an
  index within the length succeeds and changes the string's own contents at that index,
  although Go strings are immutable.
\<close>

theorem write_through_bytes_changes_string:
  assumes "i < length (contents mem s)"
  shows "\<exists>mem'. store (StrToBytes s) i v mem = Inr mem' \<and>
           contents mem' s = (contents mem s)[i := v]"
  using assms by (simp add: store_def contents_update)

theorem write_through_bytes_changes_string_witness:
  "\<exists>mem'. store (StrToBytes \<lparr>Data = 4096, Len = 2\<rparr>) 1 0x21 (\<lambda>a. 0x68) = Inr mem' \<and>
     contents mem' \<lparr>Data = 4096, Len = 2\<rparr> = (contents (\<lambda>a. 0x68) \<lparr>Data = 4096, Len = 2\<rparr>)[1 := 0x21]"
  by (rule write_through_bytes_changes_string) simp

end
