(* ===== verification/Print_Version.thy ===== *)
theory Print_Version
  imports Go_Strings
begin

text \<open>
  The version banner, \<^verbatim>\<open>src/utils/version.go\<close>: \<^verbatim>\<open>PrintVersion\<close> puts six fields
  into a map, parses the constant template, executes it on the map and prints the
  result without the white space around it.

  \<^item> \<open>versionInfoTmpl\<close> is the template's text, byte for byte.
  \<^item> \<open>Parse\<close> and \<open>Execute\<close> are the part of \<^verbatim>\<open>text/template\<close> the template needs:
    text, and actions of the form \<^verbatim>\<open>{{.name}}\<close> which print the entry \<^verbatim>\<open>name\<close> of
    the map (the empty string if there is none). Every other action, and an action that
    is not closed, is an error of \<open>Parse\<close>.
  \<^item> \<open>PrintVersion\<close> returns what is written to standard output, or the panic.
\<close>

section \<open>The template library\<close>

datatype node = TextNode string | FieldNode string

definition field_of :: "string \<Rightarrow> string option" where
  "field_of a =
     (case a of
        [] \<Rightarrow> None
      | d # f \<Rightarrow>
          if d = CHR ''.'' \<and> f \<noteq> [] \<and>
             list_all (\<lambda>ch. ch = CHR ''_'' \<or> (let n = (of_char ch :: nat) in
               (48 \<le> n \<and> n \<le> 57) \<or> (65 \<le> n \<and> n \<le> 90) \<or> (97 \<le> n \<and> n \<le> 122))) f
          then Some f else None)"

text \<open>
  \<open>scan inside acc s\<close> reads \<open>s\<close> with the text or the action read so far reversed in
  \<open>acc\<close>; \<open>inside\<close> tells whether an action is open.
\<close>

fun scan :: "bool \<Rightarrow> string \<Rightarrow> string \<Rightarrow> node list result" where
  "scan False acc [] = Inr (if acc = [] then [] else [TextNode (rev acc)])"
| "scan True acc [] = Inl (Panic ''template: unclosed action'')"
| "scan False acc [x] = scan False (x # acc) []"
| "scan True acc [x] = scan True (x # acc) []"
| "scan False acc (x # y # s) =
     (if x = CHR ''{'' \<and> y = CHR ''{''
      then map_sum id (\<lambda>ns. if acc = [] then ns else TextNode (rev acc) # ns) (scan True [] s)
      else scan False (x # acc) (y # s))"
| "scan True acc (x # y # s) =
     (if x = CHR ''}'' \<and> y = CHR ''}''
      then (case field_of (rev acc) of
              None \<Rightarrow> Inl (Panic ''template: unexpected action'')
            | Some f \<Rightarrow> map_sum id (\<lambda>ns. FieldNode f # ns) (scan False [] s))
      else scan True (x # acc) (y # s))"

definition Parse :: "string \<Rightarrow> node list result" where
  "Parse s = scan False [] s"

definition Execute :: "node list \<Rightarrow> (string \<rightharpoonup> string) \<Rightarrow> string result" where
  "Execute ns m =
     Inr (concat (map (\<lambda>n. case n of TextNode t \<Rightarrow> t
        | FieldNode f \<Rightarrow> (case m f of None \<Rightarrow> [] | Some v \<Rightarrow> v)) ns))"

section \<open>\<^verbatim>\<open>PrintVersion\<close>\<close>

record VersionInfoFields =
  AppName :: string
  Branch :: string
  Version :: string
  Revision :: string
  BuildDate :: string
  GoVersion :: string

definition versionInfoTmpl :: string where
  "versionInfoTmpl =
     [CHR 0x0A] @ ''{{.program}}, version: {{.version}} '' @
     [CHR 0x0A] @ ''(branch: {{.branch}}; revision: {{.revision}})'' @
     [CHR 0x0A] @ ''  build date:   {{.buildDate}}'' @
     [CHR 0x0A] @ ''  go version:   {{.goVersion}}'' @
     [CHR 0x0A]"

definition fields_map :: "VersionInfoFields \<Rightarrow> (string \<rightharpoonup> string)" where
  "fields_map fs =
     [''program'' \<mapsto> AppName fs,
      ''version'' \<mapsto> Version fs,
      ''branch'' \<mapsto> Branch fs,
      ''revision'' \<mapsto> Revision fs,
      ''buildDate'' \<mapsto> BuildDate fs,
      ''goVersion'' \<mapsto> GoVersion fs]"

definition PrintVersion :: "VersionInfoFields \<Rightarrow> string result" where
  "PrintVersion fs =
     (let m = fields_map fs in
      case Parse versionInfoTmpl of
        Inl err \<Rightarrow> Inl err
      | Inr tmpl \<Rightarrow>
          (case Execute tmpl m of
             Inl exeErr \<Rightarrow> Inl exeErr
           | Inr buf \<Rightarrow> Inr (TrimSpace buf @ [CHR 0x0A])))"

section \<open>The banner\<close>

definition banner :: "VersionInfoFields \<Rightarrow> string" where
  "banner f =
     AppName f @ '', version: '' @ Version f @ '' '' @
     [CHR 0x0A] @ ''(branch: '' @ Branch f @ ''; revision: '' @ Revision f @ '')'' @
     [CHR 0x0A] @ ''  build date:   '' @ BuildDate f @
     [CHR 0x0A] @ ''  go version:   '' @ GoVersion f"

definition release :: VersionInfoFields where
  "release = \<lparr>AppName = ''go-sail'', Branch = ''main'', Version = ''v3.0.0'',
     Revision = ''0a1b2c3'', BuildDate = ''2024-01-01'', GoVersion = ''go1.19''\<rparr>"

section \<open>Lemmas\<close>

lemma Parse_versionInfoTmpl:
  "Parse versionInfoTmpl = Inr
     [TextNode [CHR 0x0A], FieldNode ''program'', TextNode '', version: '', FieldNode ''version'',
      TextNode ('' '' @ [CHR 0x0A] @ ''(branch: ''), FieldNode ''branch'',
      TextNode ''; revision: '', FieldNode ''revision'',
      TextNode ('')'' @ [CHR 0x0A] @ ''  build date:   ''), FieldNode ''buildDate'',
      TextNode ([CHR 0x0A] @ ''  go version:   ''), FieldNode ''goVersion'',
      TextNode [CHR 0x0A]]"
  by (simp add: Parse_def versionInfoTmpl_def field_of_def)

lemma Execute_versionInfoTmpl:
  "Parse versionInfoTmpl = Inr tmpl \<Longrightarrow>
   Execute tmpl (fields_map f) = Inr ([CHR 0x0A] @ banner f @ [CHR 0x0A])"
  by (simp add: Parse_versionInfoTmpl Execute_def fields_map_def banner_def) auto

lemma banner_ends:
  "banner f \<noteq> []"
  "AppName f \<noteq> [] \<Longrightarrow> hd (banner f) = hd (AppName f)"
  "AppName f = [] \<Longrightarrow> hd (banner f) = CHR '',''"
  "GoVersion f \<noteq> [] \<Longrightarrow> last (banner f) = last (GoVersion f)"
  by (simp_all add: banner_def)

lemma PrintVersion_eq: "PrintVersion f = Inr (TrimSpace (banner f) @ [CHR 0x0A])"
  by (simp add: PrintVersion_def Parse_versionInfoTmpl Execute_versionInfoTmpl
      TrimSpace_Cons_space TrimSpace_snoc_space)

section \<open>Theorems\<close>

text \<open>
  C40. \<^verbatim>\<open>PrintVersion\<close> never panics, whatever the six fields are: the constant
  template parses, its execution succeeds, and what is printed is the banner (the
  template's text with each action replaced by its field, once and without reading the
  fields as template text) without the white space around it, followed by a line
  break.
\<close>

theorem PrintVersion_never_panics:
  "\<not> is_panic (PrintVersion f) \<and> PrintVersion f = Inr (TrimSpace (banner f) @ [CHR 0x0A])"
  by (simp add: PrintVersion_eq is_panic_def)

text \<open>
  When the application name does not start with white space and the Go version is
  non-empty and does not end with white space, the output is the banner itself, every
  character of the fields included, and a final line break.
\<close>

theorem PrintVersion_banner:
  assumes "AppName f = [] \<or> \<not> isSpace (hd (AppName f))"
    and "GoVersion f \<noteq> []" and "\<not> isSpace (last (GoVersion f))"
  shows "PrintVersion f = Inr (banner f @ [CHR 0x0A])"
proof -
  from assms(1) have "\<not> isSpace (hd (banner f))"
    by (cases "AppName f = []") (auto simp: banner_ends isSpace_def)
  moreover from assms(2,3) have "\<not> isSpace (last (banner f))"
    by (simp add: banner_ends)
  ultimately have "TrimSpace (banner f) = banner f"
    by (intro TrimSpace_id banner_ends)
  then show ?thesis
    by (simp add: PrintVersion_eq)
qed

theorem PrintVersion_banner_witness:
  "PrintVersion release = Inr (''go-sail, version: v3.0.0 '' @ [CHR 0x0A] @
     ''(branch: main; revision: 0a1b2c3)'' @ [CHR 0x0A] @
     ''  build date:   2024-01-01'' @ [CHR 0x0A] @
     ''  go version:   go1.19'' @ [CHR 0x0A])"
  using PrintVersion_banner [of release]
  by (simp add: release_def banner_def isSpace_def)

end
