(* ===== verification/Spec2Isabelle.thy ===== *)
theory Spec2Isabelle
  imports Schedule_Timed Schedule_Jobs Schedule_Lifecycle Random_Float Claims Nats Request_Entry Unsafe_Strings Print_Version
begin

text \<open>
  A verification development for the Go library go-sail, as far as its sources under
  \<^verbatim>\<open>src/\<close> go.

  \<^bold>\<open>The program.\<close> The core is the recurring-task scheduler
  (\<^verbatim>\<open>src/schedule/interval.go\<close>): a caller builds a task job around a work callable,
  calls one cadence method (\<^verbatim>\<open>Every(d)\<close>, \<^verbatim>\<open>EverySecond()\<close>, \<dots>, \<^verbatim>\<open>Yearly()\<close>),
  which stores the interval, starts a background loop that invokes the work on every
  tick, and returns a capability that stops the loop. Around it the repository has
  leaf utilities that do not depend on each other: number helpers
  (\<^verbatim>\<open>src/utils/number.go\<close>), JWT claim validation (\<^verbatim>\<open>src/lib/jwt/claims.go\<close>), the
  request-entry middleware (\<^verbatim>\<open>src/http/middleware/requestentry.go\<close>), a NATS
  connection holder (\<^verbatim>\<open>src/lib/nats/nats.go\<close>), zero-copy string/byte conversion
  (\<^verbatim>\<open>src/utils/string_go1.19.go\<close>) and the version banner
  (\<^verbatim>\<open>src/utils/version.go\<close>).

  \<^bold>\<open>The theories\<close>, in the order of their imports.
  \<^item> \<open>Prelude\<close>: Go's \<^verbatim>\<open>int64\<close> as \<open>64 word\<close> read through \<open>sint\<close>, truncating
    division, panics as the left summand of \<open>'a result\<close>, and the facts on words and
    lists that the components share.
  \<^item> \<open>Duration\<close>: \<^verbatim>\<open>time.Duration\<close>, its unit constants and \<^verbatim>\<open>Milliseconds()\<close>.
  \<^item> \<open>Schedule\<close>: the task job (\<open>taskJob\<close>, extended to \<open>world\<close> by the loops, the
    environment of the work and the log) and the nineteen cadence methods, each from
    its lines of \<^verbatim>\<open>interval.go\<close>; \<open>NewTaskJob\<close>, \<open>run\<close> and \<open>invoke\<close> after
    sections 3 and 4.1 of the specification, since their code is not under \<^verbatim>\<open>src/\<close>.
    It shows the interval every method stores, in 64 bits, and that all methods are the
    one primitive \<open>arm\<close> at an entry of the catalog \<open>cadence\<close>.
  \<^item> \<open>Schedule_Loop\<close>: the run loop as a state machine over \<open>world\<close>; the events
    \<open>Call\<close>, \<open>Tick\<close>, \<open>Return\<close>, \<open>Cancel\<close>, \<open>Exit\<close>, the executable \<open>apply_event\<close>
    and \<open>run_events\<close>, the relation \<open>step\<close> with \<open>reachable\<close>, and the invariant
    \<open>wf_world\<close>. It shows that at most one loop is live, that a method call
    supersedes the running loop, that cancellation is terminal and idempotent, that a
    failing work is logged and the loop goes on, that invocations of one loop do not
    overlap and that a cancelled loop exits.
  \<^item> \<open>Schedule_Timed\<close>: the instants at which the invocations of one loop start
    (\<open>start_time\<close>, \<open>started_by\<close>) for a timer that keeps at most one tick while the
    work runs, after section 4.1 of the specification; that invocations do not overlap
    in time, and the specification's scenario of a job run every second.
  \<^item> \<open>Schedule_Jobs\<close>: several jobs side by side, after section 5 of the
    specification: \<open>job_event\<close> and \<open>run_jobs\<close> run the actions of a list of jobs in
    any interleaving; a schedule runs exactly when every job runs its own part, each job
    ends where it ends alone, and the invariant of one job holds of all.
  \<^item> \<open>Schedule_Lifecycle\<close>: the state machine of section 4.1 (idle, running,
    cancelled) as the abstract machine \<open>lifecycle_step\<close>, and the run loop as its
    refinement under the abstraction \<open>lifecycle\<close>.
  \<^item> \<open>Number\<close>: \<^verbatim>\<open>RandomInt64\<close> with the random draw as an argument and \<^verbatim>\<open>Pow\<close>
    (\<open>Pow64\<close>) with its loop \<open>pow_loop\<close>; what they return on every branch, their
    panics, and where the result differs from the documented one.
  \<^item> \<open>Random_Float\<close>: \<^verbatim>\<open>RandomFloat64\<close> over the interface \<open>float64\<close> of the
    floating-point operations it uses: the guards, the scaling loops \<open>scale_loop\<close> and
    their composition \<open>scale_of\<close>, the call of \<open>RandomInt64\<close> and the decimal division
    \<open>Decimal_Div\<close>; for which bounds the loops end, when they do not, what is
    returned, and where the result differs from the documented one.
  \<^item> \<open>Claims\<close>: \<^verbatim>\<open>(*MapClaims).Valid\<close> block by block (\<open>set_aud\<close> \<dots> \<open>set_sub\<close>,
    \<open>standardClaim\<close>, \<open>Valid\<close>) over the conversion interface \<open>conv\<close>, and the
    library's check \<open>StandardClaims_Valid\<close>; the verdict as a function of the three time
    claims, and which claims are copied where.
  \<^item> \<open>Go_Strings\<close>: \<^verbatim>\<open>strings.Join\<close>, \<^verbatim>\<open>strings.Split\<close> and \<^verbatim>\<open>strings.TrimSpace\<close>
    with their round trips.
  \<^item> \<open>Nats\<close>: the package variable \<^verbatim>\<open>natsInstance\<close> (\<open>package\<close>) and \<open>Init\<close>,
    \<open>initNats\<close>, \<open>GetInstance\<close>, \<open>New\<close> with the client library as a parameter; when
    a connection is published, what the library is called with, and the panics.
  \<^item> \<open>Request_Entry\<close>: the handler \<open>RequestEntry\<close> with its blocks
    \<open>requestIdInHeader\<close>, \<open>ids\<close> and \<open>client_language\<close> over the part of the
    context it touches; the ids, the language and the frame of the handler.
  \<^item> \<open>Unsafe_Strings\<close>: \<open>StrToBytes\<close> and \<open>BytesToStr\<close> on string and slice headers
    over an explicit byte store; the round trip and the sharing of the bytes.
  \<^item> \<open>Print_Version\<close>: the template text, \<open>Parse\<close> and \<open>Execute\<close> for the part of
    \<^verbatim>\<open>text/template\<close> it needs, \<open>fields_map\<close> and \<open>PrintVersion\<close>; the output for every
    value of the fields.

  \<^bold>\<open>Conventions.\<close> A method with receiver \<^verbatim>\<open>j\<close> takes the world first and returns the
  new world with its result; package-level variables are a record that is passed and
  returned. Integers are kept at 64 bits, so a statement about \<open>sint\<close> of a result also
  says that the arithmetic of the source did not overflow. A panic is \<open>Inl (Panic msg)\<close>,
  a returned \<^verbatim>\<open>error\<close> an \<open>option\<close>. What the code obtains from outside (the random
  draw, the UUID, the clock, the NATS client, the number conversions of \<^verbatim>\<open>fmt\<close> and
  \<^verbatim>\<open>strconv\<close>) is an argument of the definition, and a theorem for all values of the
  argument is a theorem about every run. Every definition is executable; closed
  instances evaluate with \<open>simp\<close>.

  \<^bold>\<open>Concurrency, time and termination.\<close> The caller, the timers and the work run
  concurrently; \<open>Schedule_Loop\<close> interleaves their atomic actions as events, and the
  theorems quantify over all schedules. There a tick is an event, not an instant, so
  the theorems say which invocations can happen and in which order; \<open>Schedule_Timed\<close>
  adds the instants, in nanoseconds as natural numbers, for one loop and any durations
  of the work. No fuel is used anywhere: \<open>pow_loop\<close> is a total function whose measure is the
  64-bit distance from the counter to the exponent, \<open>split_from\<close> one whose measure is
  the length of the text left, and \<open>scan\<close> is structurally recursive. The loops of
  \<^verbatim>\<open>RandomFloat64\<close> do not end for every input, so \<open>scale_loop\<close> is a partial function
  in the option monad and \<open>None\<close> is the run that never returns; that it returns is a
  theorem with its hypothesis (\<open>RandomFloat64_returns\<close>), and the bound of 64 iterations
  comes from the width of the scale, since \<open>10 ^ 64\<close> is 0 in 64 bits.

  \<^bold>\<open>Not modelled.\<close> The rounding of IEEE floating point and of the decimal library
  (\<^verbatim>\<open>RandomFloat64\<close> is proved for every implementation of the operations it uses, and
  its closed examples are computed without rounding), the drift and jitter of real
  timers, the test file
  \<^verbatim>\<open>src/utils/time_test.go\<close> (it exercises code that is not in the sources), and the
  libraries the sources only call (gin, zap, uuid, nats.go, golang-jwt, text/template,
  math/rand) beyond the contracts named above. \<^verbatim>\<open>strings.TrimSpace\<close> is given for ASCII
  white space, \<open>Parse\<close> for text and field actions, and the library's validation error
  by its mask, without its message.
\<close>

end
